theory Spec2Isabelle
  imports Main "HOL-Library.Word"
begin

unbundle bit_operations_syntax

section \<open>The tcpdump sidecar orchestrator (tcpdumpw/main.go)\<close>

text \<open>
  A shallow embedding of \<^verbatim>\<open>src/tcpdumpw/main.go\<close>. Package-level variables (the
  parsed flags, the environment strings, \<^verbatim>\<open>jobs\<close>, \<^verbatim>\<open>jid\<close>, \<^verbatim>\<open>xid\<close>) are
  the fields of one record that every function takes and returns. What the program does
  to the outside (lines printed on standard output, constructors of the capture library
  called, scheduler operations) is appended, in program order, to the field \<open>out\<close>.
  What the outside answers (does an interface resolve, does a constructor fail, when
  does an engine return) is an input of the model.
\<close>

subsection \<open>Identifiers and formatting verbs\<close>

text \<open>A \<^verbatim>\<open>uuid.UUID\<close> is sixteen bytes; byte 0 is the most significant one here.\<close>

type_synonym uuid = "128 word"

definition uuid_Nil :: uuid where
  "uuid_Nil = 0"

definition hexdigit :: "nat \<Rightarrow> char" where
  "hexdigit n = ''0123456789abcdef'' ! n"

definition hexbyte :: "8 word \<Rightarrow> string" where
  "hexbyte b = [hexdigit (unat (drop_bit 4 b)), hexdigit (unat (b AND 15))]"

definition uuid_byte :: "uuid \<Rightarrow> nat \<Rightarrow> 8 word" where
  "uuid_byte u i = ucast (drop_bit (8 * (15 - i)) u)"

text \<open>\<^verbatim>\<open>UUID.String()\<close>: the form xxxxxxxx-xxxx-xxxx-xxxx-xxxxxxxxxxxx.\<close>

definition uuid_String :: "uuid \<Rightarrow> string" where
  "uuid_String u =
     concat (map (\<lambda>i. hexbyte (uuid_byte u i)) [0, 1, 2, 3]) @ ''-'' @
     concat (map (\<lambda>i. hexbyte (uuid_byte u i)) [4, 5]) @ ''-'' @
     concat (map (\<lambda>i. hexbyte (uuid_byte u i)) [6, 7]) @ ''-'' @
     concat (map (\<lambda>i. hexbyte (uuid_byte u i)) [8, 9]) @ ''-'' @
     concat (map (\<lambda>i. hexbyte (uuid_byte u i)) [10, 11, 12, 13, 14, 15])"

text \<open>The verbs \<^verbatim>\<open>%d\<close> and \<^verbatim>\<open>%t\<close> of \<^verbatim>\<open>fmt.Sprintf\<close>.\<close>

fun show_nat :: "nat \<Rightarrow> string" where
  "show_nat n =
     (if n < 10 then [''0123456789'' ! n]
      else show_nat (n div 10) @ [''0123456789'' ! (n mod 10)])"

declare show_nat.simps [simp del]

definition show_int :: "int \<Rightarrow> string" where
  "show_int i = (if i < 0 then ''-'' @ show_nat (nat (- i)) else show_nat (nat i))"

definition show_bool :: "bool \<Rightarrow> string" where
  "show_bool b = (if b then ''true'' else ''false'')"

text \<open>A Go \<^verbatim>\<open>error\<close> is its message; \<open>None\<close> is \<^verbatim>\<open>nil\<close>.\<close>

type_synonym error = "string option"

subsection \<open>Data model\<close>

text \<open>
  \<^verbatim>\<open>pcap.PcapConfig\<close>, with the fields this program sets: the nine of
  \<^verbatim>\<open>newPcapConfig\<close> and \<^verbatim>\<open>Ordered\<close> (line 236).
\<close>

record PcapConfig =
  Promisc :: bool
  Iface :: string
  Snaplen :: int
  TsType :: string
  Format :: string
  Output :: string
  Extension :: string
  Filter :: string
  Interval :: int
  Ordered :: bool

text \<open>
  An engine is known by the constructor that built it and the configuration it was given;
  a writer by its constructor's arguments. \<open>NilWriter\<close> is the \<^verbatim>\<open>nil\<close> interface value
  that \<^verbatim>\<open>jsondumpWriter\<close> starts as (line 214).
\<close>

datatype PcapEngine = Tcpdump PcapConfig | Pcap PcapConfig

datatype PcapWriter = NilWriter | FileWriter string string string int | StdoutWriter

record pcapTask =
  engine :: PcapEngine
  writers :: "PcapWriter list"

text \<open>
  \<^verbatim>\<open>tcpdumpJob\<close>. The fields \<^verbatim>\<open>j\<close> (the scheduler's handle) and \<^verbatim>\<open>ctx\<close> (the
  execution scope) point into the scheduler and the runtime; what they answer enters
  the functions below as arguments.
\<close>

record tcpdumpJob =
  Xid :: string
  Jid :: string
  Name :: string
  Tags :: "string list"
  tasks :: "pcapTask list"

datatype jLogLevel = INFO | ERROR | FATAL

record jLogEntry =
  Severity :: jLogLevel
  Message :: string
  Sidecar :: string
  Module :: string
  Job :: tcpdumpJob
  Tags :: "string list"

text \<open>A JSON text, as a tree: \<^verbatim>\<open>json.Marshal\<close> up to the escaping of characters.\<close>

datatype json = JString string | JArray "json list" | JObject "(string \<times> json) list"

text \<open>What the program does to the outside, in the order it does it.\<close>

datatype action =
    Println json
  | Call_NewTcpdump PcapConfig
  | Call_NewPcap PcapConfig
  | Call_NewPcapWriter string string string int
  | Call_NewStdoutPcapWriter
  | EngineStart pcapTask
  | StoreTimezone string
  | SchedulerStart
  | StopJobs
  | RemoveJob uuid
  | Shutdown
  | Cancel

text \<open>The flags (lines 26-40); \<open>filter_flag\<close> is the variable \<^verbatim>\<open>filter\<close>.\<close>

record flags =
  use_cron :: bool
  cron_exp :: string
  timezone :: string
  duration :: int
  interval :: int
  snaplen :: int
  filter_flag :: string
  extension :: string
  directory :: string
  tcp_dump :: bool
  json_dump :: bool
  json_log :: bool
  ordered :: bool

record globals =
  fl :: flags
  ifacePattern :: string
  sidecar :: string
  module :: string
  jobs :: "uuid \<rightharpoonup> tcpdumpJob"
  jid :: uuid
  xid :: uuid
  out :: "action list"

definition emptyTcpdumpJob :: tcpdumpJob where
  "emptyTcpdumpJob =
     \<lparr>Xid = [], Jid = uuid_String uuid_Nil, Name = [], Tags = [], tasks = []\<rparr>"

subsection \<open>Correlation and logging: jlog\<close>

definition level_string :: "jLogLevel \<Rightarrow> string" where
  "level_string l = (case l of INFO \<Rightarrow> ''INFO'' | ERROR \<Rightarrow> ''ERROR'' | FATAL \<Rightarrow> ''FATAL'')"

text \<open>A string field tagged \<^verbatim>\<open>omitempty\<close>.\<close>

definition omitempty :: "string \<Rightarrow> string \<Rightarrow> (string \<times> json) list" where
  "omitempty key v = (if v = [] then [] else [(key, JString v)])"

text \<open>
  The struct tags of \<^verbatim>\<open>tcpdumpJob\<close>: xid, jid and name are written when not empty;
  \<^verbatim>\<open>Tags\<close>, \<^verbatim>\<open>tasks\<close>, \<^verbatim>\<open>j\<close> and \<^verbatim>\<open>ctx\<close> are not written.
\<close>

definition Marshal_job :: "tcpdumpJob \<Rightarrow> json" where
  "Marshal_job j =
     JObject (omitempty ''xid'' (Xid j) @ omitempty ''jid'' (Jid j) @ omitempty ''name'' (Name j))"

definition Marshal :: "jLogEntry \<Rightarrow> json" where
  "Marshal e =
     JObject
       ([(''severity'', JString (level_string (Severity e))),
         (''message'', JString (Message e)),
         (''sidecar'', JString (Sidecar e)),
         (''module'', JString (Module e)),
         (''job'', Marshal_job (Job e))] @
        (if jLogEntry.Tags e = [] then []
         else [(''tags'', JArray (map JString (jLogEntry.Tags e)))]))"

text \<open>Lines 89-99 of \<^verbatim>\<open>jlog\<close>: the copy of the job with the execution identity, and the entry.\<close>

definition jlog_entry :: "jLogLevel \<Rightarrow> tcpdumpJob \<Rightarrow> string \<Rightarrow> globals \<Rightarrow> jLogEntry" where
  "jlog_entry severity job message g =
     (let j = job\<lparr>Xid := uuid_String (xid g)\<rparr>
      in \<lparr>Severity = severity, Message = message, Sidecar = sidecar g, Module = module g,
          Job = j, Tags = tcpdumpJob.Tags j\<rparr>)"

text \<open>
  \<^verbatim>\<open>jlog\<close>. \<^verbatim>\<open>json.Marshal\<close> cannot fail on this struct (strings and a slice of
  strings), so the line is always printed.
\<close>

definition jlog :: "jLogLevel \<Rightarrow> tcpdumpJob \<Rightarrow> string \<Rightarrow> globals \<Rightarrow> globals" where
  "jlog severity job message g =
     g\<lparr>out := out g @ [Println (Marshal (jlog_entry severity job message g))]\<rparr>"

text \<open>Reading a printed line back.\<close>

fun jfield :: "string \<Rightarrow> json \<Rightarrow> json option" where
  "jfield k (JObject kvs) = map_of kvs k"
| "jfield k (JString s) = None"
| "jfield k (JArray xs) = None"

subsection \<open>Task factory: newPcapConfig\<close>

definition newPcapConfig ::
  "string \<Rightarrow> string \<Rightarrow> string \<Rightarrow> string \<Rightarrow> string \<Rightarrow> int \<Rightarrow> int \<Rightarrow> PcapConfig" where
  "newPcapConfig iface format output ext flt snap intv =
     \<lparr>Promisc = True, Iface = iface, Snaplen = snap, TsType = [], Format = format,
      Output = output, Extension = ext, Filter = flt, Interval = intv, Ordered = False\<rparr>"

subsection \<open>Device selector: the interface regular expression\<close>

text \<open>
  Line 190 compiles the text \<^verbatim>\<open>^(?:ipvlan-)?\<close> \<^emph>\<open>pattern\<close> \<^verbatim>\<open>\d+.*\<close>, where the pattern
  is the environment string \<^verbatim>\<open>PCAP_IFACE\<close>, spliced in as it is
  (no \<^verbatim>\<open>regexp.QuoteMeta\<close>). The model covers the regular expressions of that shape:
  one or more branches separated by \<^verbatim>\<open>|\<close>, each a sequence of items. The leading
  \<^verbatim>\<open>^\<close> belongs to the first branch, which is matched from the start of the name; a
  later branch may match anywhere in the name. No branch ends in \<^verbatim>\<open>$\<close>, so the end of
  a match is free.
\<close>

datatype cls = Lit char | AnyChar | Digit

datatype item = One cls | OptLit string | Plus cls | Star cls

datatype regexp = Regexp (anchored: "item list") (free: "item list list")

definition is_digit :: "char \<Rightarrow> bool" where
  "is_digit c = (c \<in> set ''0123456789'')"

text \<open>
  \<^verbatim>\<open>\d\<close> is an ASCII digit; \<^verbatim>\<open>.\<close> is any character but a newline. A name is
  read as ASCII text, one character a byte.
\<close>

fun cls_match :: "cls \<Rightarrow> char \<Rightarrow> bool" where
  "cls_match (Lit c) x = (x = c)"
| "cls_match AnyChar x = (x \<noteq> CHR 0x0A)"
| "cls_match Digit x = is_digit x"

fun prefix_match :: "item list \<Rightarrow> string \<Rightarrow> bool" where
  "prefix_match [] s = True"
| "prefix_match (One c # r) [] = False"
| "prefix_match (One c # r) (x # xs) = (cls_match c x \<and> prefix_match r xs)"
| "prefix_match (OptLit w # r) s =
     ((take (length w) s = w \<and> prefix_match r (drop (length w) s)) \<or> prefix_match r s)"
| "prefix_match (Plus c # r) [] = False"
| "prefix_match (Plus c # r) (x # xs) =
     (cls_match c x \<and> (prefix_match r xs \<or> prefix_match (Plus c # r) xs))"
| "prefix_match (Star c # r) [] = prefix_match r []"
| "prefix_match (Star c # r) (x # xs) =
     (prefix_match r (x # xs) \<or> (cls_match c x \<and> prefix_match (Star c # r) xs))"

text \<open>A branch without anchor matches at some position of the name.\<close>

fun search :: "item list \<Rightarrow> string \<Rightarrow> bool" where
  "search b [] = prefix_match b []"
| "search b (x # xs) = (prefix_match b (x # xs) \<or> search b xs)"

text \<open>\<^verbatim>\<open>Regexp.MatchString\<close> for such an expression: some branch matches.\<close>

definition MatchString :: "regexp \<Rightarrow> string \<Rightarrow> bool" where
  "MatchString re s = (prefix_match (anchored re) s \<or> list_ex (\<lambda>b. search b s) (free re))"

text \<open>The characters \<^verbatim>\<open>regexp/syntax\<close> gives a meaning of their own.\<close>

definition meta :: "char \<Rightarrow> bool" where
  "meta c = (c \<in> set (CHR 0x5C # ''.+*?()|[]{}^$''))"

definition plain :: "char \<Rightarrow> bool" where
  "plain c = (\<not> meta c \<and> of_char c < (128 :: nat))"

text \<open>The pattern, cut at every \<^verbatim>\<open>|\<close>.\<close>

fun split_bars :: "string \<Rightarrow> string list" where
  "split_bars [] = [[]]"
| "split_bars (c # cs) =
     (if c = CHR ''|'' then [] # split_bars cs
      else case split_bars cs of [] \<Rightarrow> [[c]] | b # bs \<Rightarrow> (c # b) # bs)"

text \<open>
  One branch of the pattern. A plain character stands for itself and a dot for any
  character. \<open>None\<close>: the branch has another metacharacter or a character outside
  ASCII, which this model does not parse (\<^verbatim>\<open>MustCompile\<close> panics on some of these
  patterns).
\<close>

fun pattern_items :: "string \<Rightarrow> item list option" where
  "pattern_items [] = Some []"
| "pattern_items (c # cs) =
     (if c = CHR ''.'' then map_option ((#) (One AnyChar)) (pattern_items cs)
      else if plain c then map_option ((#) (One (Lit c))) (pattern_items cs)
      else None)"

text \<open>
  The expression of line 190 around the branches of the pattern: the optional
  \<^verbatim>\<open>ipvlan-\<close> goes before the first branch, the digits and the rest after the last.
\<close>

fun assemble :: "item list list \<Rightarrow> regexp" where
  "assemble [] = Regexp [OptLit ''ipvlan-'', Plus Digit, Star AnyChar] []"
| "assemble [b] = Regexp ([OptLit ''ipvlan-''] @ b @ [Plus Digit, Star AnyChar]) []"
| "assemble (b # bs) =
     Regexp ([OptLit ''ipvlan-''] @ b) (butlast bs @ [last bs @ [Plus Digit, Star AnyChar]])"

definition ifaceRegexp :: "string \<Rightarrow> regexp option" where
  "ifaceRegexp pat = map_option assemble (those (map pattern_items (split_bars pat)))"

subsection \<open>Task factory: createTasks\<close>

record NetInterface =
  Index :: int
  Name :: string

text \<open>
  What the outside answers while one device is processed: \<^verbatim>\<open>net.InterfaceByName\<close>
  (\<open>Inl\<close> the error), and the error of each constructor of the capture library.
\<close>

record probe =
  InterfaceByName :: "string + NetInterface"
  NewTcpdump :: "PcapConfig \<Rightarrow> error"
  NewPcap :: "PcapConfig \<Rightarrow> error"
  NewPcapWriter :: "string \<Rightarrow> string \<Rightarrow> string \<Rightarrow> int \<Rightarrow> error"
  NewStdoutPcapWriter :: error

text \<open>The host: its interface names, in the enumerator's order, each with its answers.\<close>

type_synonym host = "(string \<times> probe) list"

text \<open>
  Modelled from the spec: \<^verbatim>\<open>pcap.FindDevicesByRegex\<close>, a function of the capture
  library whose code is not among the sources. Its contract (specification, section 6,
  Device Enumerator): given a compiled name-matcher, it returns the matching interface
  names of the host. Its error is dropped at line 191; a failed enumeration is an empty
  host here.
\<close>

definition FindDevicesByRegex :: "regexp \<Rightarrow> host \<Rightarrow> host" where
  "FindDevicesByRegex re h = filter (\<lambda>d. MatchString re (fst d)) h"

text \<open>Lines 190-191: the devices \<^verbatim>\<open>createTasks\<close> goes through.\<close>

definition DeviceSelector :: "string \<Rightarrow> host \<Rightarrow> host option" where
  "DeviceSelector pat h = map_option (\<lambda>re. FindDevicesByRegex re h) (ifaceRegexp pat)"

definition call :: "action \<Rightarrow> globals \<Rightarrow> globals" where
  "call a g = g\<lparr>out := out g @ [a]\<rparr>"

text \<open>Lines 229-273: the decoded (JSON) part of one pass of the loop.\<close>

definition createTasks_json ::
  "flags \<Rightarrow> probe \<Rightarrow> string \<Rightarrow> string \<Rightarrow> PcapConfig \<Rightarrow> globals \<times> pcapTask list
     \<Rightarrow> globals \<times> pcapTask list" where
  "createTasks_json f w ifaceAndIndex output jsondumpCfg0 st =
     (let g = fst st; ts = snd st in
      if \<not> json_dump f \<or> \<not> json_log f then (g, ts)
      else
        let jsondumpCfg = jsondumpCfg0\<lparr>Ordered := ordered f\<rparr>;
            g1 = call (Call_NewPcap jsondumpCfg) g
        in case NewPcap w jsondumpCfg of
             Some e \<Rightarrow>
               (jlog ERROR emptyTcpdumpJob
                  (''jsondump task creation failed: '' @ ifaceAndIndex @ '' ('' @ e @ '')'') g1, ts)
           | None \<Rightarrow>
               let jsondumpEngine = Pcap jsondumpCfg;
                   g2 = (if json_dump f
                         then call (Call_NewPcapWriter output (Extension jsondumpCfg)
                                      (timezone f) (interval f)) g1
                         else g1);
                   writerErr = (if json_dump f
                                then NewPcapWriter w output (Extension jsondumpCfg)
                                       (timezone f) (interval f)
                                else None);
                   jsondumpWriter = (if json_dump f \<and> writerErr = None
                                     then FileWriter output (Extension jsondumpCfg)
                                            (timezone f) (interval f)
                                     else NilWriter);
                   g3 = (case writerErr of
                           Some e \<Rightarrow>
                             jlog ERROR emptyTcpdumpJob
                               (''jsondump file writer creation failed: '' @ ifaceAndIndex @
                                '' ('' @ e @ '')'') g2
                         | None \<Rightarrow> g2);
                   pcapWriters = (case writerErr of Some e \<Rightarrow> [] | None \<Rightarrow> [jsondumpWriter])
               in if \<not> json_log f \<and> writerErr = None
                  then (g3, ts @ [\<lparr>engine = jsondumpEngine, writers = pcapWriters\<rparr>])
                  else
                    let g4 = call Call_NewStdoutPcapWriter g3
                    in case NewStdoutPcapWriter w of
                         Some e \<Rightarrow>
                           (jlog ERROR emptyTcpdumpJob
                              (''jsondump stdout writer creation failed: '' @ ifaceAndIndex @
                               '' ('' @ e @ '')'') g4, ts)
                       | None \<Rightarrow>
                           (jlog INFO emptyTcpdumpJob
                              (''configured 'jsondump' for iface: '' @ ifaceAndIndex) g4,
                            ts @ [\<lparr>engine = jsondumpEngine,
                                   writers = pcapWriters @ [StdoutWriter]\<rparr>]))"

text \<open>Lines 195-227: resolution of the device and the raw (tcpdump) part of one pass.\<close>

definition createTasks_iface ::
  "flags \<Rightarrow> string \<times> probe \<Rightarrow> globals \<times> pcapTask list \<Rightarrow> globals \<times> pcapTask list" where
  "createTasks_iface f dev st =
     (let g = fst st; ts = snd st; w = snd dev in
      case InterfaceByName w of
        Inl err \<Rightarrow>
          (jlog ERROR emptyTcpdumpJob
             (''invalid iface: '' @ fst dev @ '' ('' @ err @ '')'') g, ts)
      | Inr netIface \<Rightarrow>
          let iface = NetInterface.Name netIface;
              ifaceAndIndex = show_int (Index netIface) @ ''/'' @ iface;
              g1 = jlog INFO emptyTcpdumpJob
                     (''configuring PCAP for iface: '' @ ifaceAndIndex) g;
              output = directory f @ ''/part__'' @ show_int (Index netIface) @ ''_'' @
                       NetInterface.Name netIface @ ''__%Y%m%d_%H%M%S'';
              tcpdumpCfg = newPcapConfig iface ''pcap'' output (extension f) (filter_flag f)
                             (snaplen f) (interval f);
              jsondumpCfg = newPcapConfig iface ''json'' output ''json'' (filter_flag f)
                              (snaplen f) (interval f);
              g2 = (if tcp_dump f then call (Call_NewTcpdump tcpdumpCfg) g1 else g1);
              engineErr = (if tcp_dump f then NewTcpdump w tcpdumpCfg else Some ''disabled'');
              st3 = (case engineErr of
                       None \<Rightarrow>
                         (jlog INFO emptyTcpdumpJob
                            (''configured 'tcpdump' for iface: '' @ ifaceAndIndex) g2,
                          ts @ [\<lparr>engine = Tcpdump tcpdumpCfg, writers = []\<rparr>])
                     | Some e \<Rightarrow>
                         (jlog ERROR emptyTcpdumpJob
                            (''tcpdump task creation failed: '' @ ifaceAndIndex @
                             '' ('' @ e @ '')'') g2, ts))
          in createTasks_json f w ifaceAndIndex output jsondumpCfg st3)"

text \<open>
  \<^verbatim>\<open>createTasks\<close>: the loop over the devices found. \<open>None\<close>: the pattern is outside
  the expressions modelled (see \<open>pattern_items\<close>).
\<close>

definition createTasks :: "globals \<Rightarrow> host \<Rightarrow> (globals \<times> pcapTask list) option" where
  "createTasks g h =
     (case DeviceSelector (ifacePattern g) h of
        None \<Rightarrow> None
      | Some devices \<Rightarrow> Some (fold (createTasks_iface (fl g)) devices (g, [])))"

subsection \<open>Execution context manager: start\<close>

text \<open>
  \<^verbatim>\<open>start\<close> blocks twice: on \<^verbatim>\<open><-ctx.Done()\<close> (line 147), then on \<^verbatim>\<open>wg.Wait()\<close>
  (line 150). While it is blocked the outside moves: the base scope is cancelled, time
  passes, the engine of the i-th task returns from \<^verbatim>\<open>Start\<close> (its goroutine then calls
  \<^verbatim>\<open>wg.Done\<close>). A run of \<^verbatim>\<open>start\<close> is read against a finite list of such events;
  after each event the calling goroutine goes as far as it can.
\<close>

datatype event = ScopeCancelled | Elapse nat | EngineReturns nat

datatype phase = AwaitScope | AwaitWorkers | Returned

text \<open>
  \<open>cancelled\<close>: the base scope is done. \<open>clock\<close>: nanoseconds since the call.
  \<open>running\<close>: the goroutines that have not called \<^verbatim>\<open>wg.Done\<close>.
\<close>

record start_state =
  phase :: phase
  cancelled :: bool
  clock :: int
  running :: "nat list"

text \<open>
  Lines 133-137: with a positive timeout the scope is the base scope with a deadline;
  otherwise it is the base scope itself.
\<close>

definition scope_done :: "int \<Rightarrow> start_state \<Rightarrow> bool" where
  "scope_done timeout s = (cancelled s \<or> (0 < timeout \<and> timeout \<le> clock s))"

definition advance :: "int \<Rightarrow> start_state \<Rightarrow> start_state" where
  "advance timeout s =
     (let s1 = (if phase s = AwaitScope \<and> scope_done timeout s
                then s\<lparr>phase := AwaitWorkers\<rparr> else s)
      in if phase s1 = AwaitWorkers \<and> running s1 = [] then s1\<lparr>phase := Returned\<rparr> else s1)"

fun deliver :: "event \<Rightarrow> start_state \<Rightarrow> start_state" where
  "deliver ScopeCancelled s = s\<lparr>cancelled := True\<rparr>"
| "deliver (Elapse n) s = s\<lparr>clock := clock s + int n\<rparr>"
| "deliver (EngineReturns i) s = s\<lparr>running := removeAll i (running s)\<rparr>"

definition start_init :: "bool \<Rightarrow> nat \<Rightarrow> start_state" where
  "start_init ctx_cancelled n =
     \<lparr>phase = AwaitScope, cancelled = ctx_cancelled, clock = 0, running = [0..<n]\<rparr>"

definition start_run :: "int \<Rightarrow> start_state \<Rightarrow> event list \<Rightarrow> start_state" where
  "start_run timeout s evs =
     foldl (\<lambda>s e. advance timeout (deliver e s)) (advance timeout s) evs"

text \<open>
  \<^verbatim>\<open>start\<close>. The first argument says whether the base scope is already cancelled at
  the call. The result is \<open>None\<close> while the call is still blocked at the end of the
  events, and \<open>Some None\<close> once it has returned \<^verbatim>\<open>nil\<close>.
\<close>

definition start ::
  "bool \<Rightarrow> int \<Rightarrow> pcapTask list \<Rightarrow> event list \<Rightarrow> globals \<Rightarrow> globals \<times> error option" where
  "start ctx_cancelled timeout ts evs g =
     (let s = start_run timeout (start_init ctx_cancelled (length ts)) evs
      in (g\<lparr>out := out g @ map EngineStart ts\<rparr>,
          if phase s = Returned then Some None else None))"

subsection \<open>Scheduler hooks and the scheduled function\<close>



text \<open>
  \<^verbatim>\<open>tcpdump\<close>, the function the scheduler runs. \<open>Some (Some m)\<close> is the error with
  message \<open>m\<close>; the other results are those of \<open>start\<close>.
\<close>

definition tcpdump ::
  "bool \<Rightarrow> int \<Rightarrow> event list \<Rightarrow> globals \<Rightarrow> globals \<times> error option" where
  "tcpdump ctx_cancelled timeout evs g =
     (let jobID = jid g in
      case jobs g jobID of
        None \<Rightarrow>
          let message = ''job[id:'' @ uuid_String jobID @ ''] not found''
          in (jlog ERROR emptyTcpdumpJob message g, Some (Some message))
      | Some job \<Rightarrow> start ctx_cancelled timeout (tasks job) evs g)"

subsection \<open>Lifecycle controller: main\<close>

text \<open>The scheduler's job handle: what \<^verbatim>\<open>ID()\<close>, \<^verbatim>\<open>Name()\<close>, \<^verbatim>\<open>Tags()\<close> and \<^verbatim>\<open>NextRun()\<close> answer.\<close>

record gocron_Job =
  ID :: uuid
  JobName :: string
  JobTags :: "string list"
  NextRun :: string

text \<open>
  The answers of the libraries \<^verbatim>\<open>main\<close> calls: \<^verbatim>\<open>time.LoadLocation\<close> (\<open>Inl\<close> the error,
  \<open>Inr\<close> the location's name), \<^verbatim>\<open>gocron.NewScheduler\<close> for a location,
  \<^verbatim>\<open>Scheduler.NewJob\<close> for a crontab, and the rendering of a \<^verbatim>\<open>time.Duration\<close>.
\<close>

record extern =
  LoadLocation :: "string \<Rightarrow> string + string"
  NewScheduler :: "string \<Rightarrow> error"
  NewJob :: "string \<Rightarrow> string + gocron_Job"
  show_Duration :: "int \<Rightarrow> string"

text \<open>
  What happens around the process while \<^verbatim>\<open>main\<close> is blocked: a termination signal
  (by its name), time passing, an engine returning.
\<close>

datatype happening = Signal string | Elapsed nat | EngineDone nat

text \<open>
  How the process stands at the end of the happenings: it has exited with a code, it is
  still blocked, it was ended by a signal it does not handle, or the interface pattern
  is outside the model (see \<open>createTasks\<close>).
\<close>

datatype outcome = Exit nat | Blocked | Killed | Unmodelled

fun first_signal :: "happening list \<Rightarrow> string option" where
  "first_signal [] = None"
| "first_signal (Signal s # hs) = Some s"
| "first_signal (Elapsed n # hs) = first_signal hs"
| "first_signal (EngineDone i # hs) = first_signal hs"

fun start_events :: "happening list \<Rightarrow> event list" where
  "start_events [] = []"
| "start_events (Signal s # hs) = []"
| "start_events (Elapsed n # hs) = Elapse n # start_events hs"
| "start_events (EngineDone i # hs) = EngineReturns i # start_events hs"

definition args_message :: "flags \<Rightarrow> string" where
  "args_message f =
     ''args[use_cron:'' @ show_bool (use_cron f) @ ''|cron_exp:'' @ cron_exp f @
     ''|timezone:'' @ timezone f @ ''|timeout:'' @ show_int (duration f) @
     ''|extension:'' @ extension f @ ''|directory:'' @ directory f @
     ''|snaplen:'' @ show_int (snaplen f) @ ''|filter:'' @ filter_flag f @
     ''|interval:'' @ show_int (interval f) @ ''|tcpdump:'' @ show_bool (tcp_dump f) @
     ''|jsondump:'' @ show_bool (json_dump f) @ ''|jsonlog:'' @ show_bool (json_log f) @
     ''|ordered:'' @ show_bool (ordered f) @ '']''"

text \<open>
  Lines 303-306, scheduling off. No handler is installed on this path and nothing
  cancels the scope before \<^verbatim>\<open>start\<close> returns: a signal ends the process. On return
  the deferred \<^verbatim>\<open>cancel\<close> runs and the process exits with code 0.
\<close>

definition main_oneshot ::
  "int \<Rightarrow> pcapTask list \<Rightarrow> happening list \<Rightarrow> globals \<Rightarrow> globals \<times> outcome" where
  "main_oneshot timeout ts hs g =
     (let r = start False timeout ts (start_events hs) g in
      case snd r of
        Some e \<Rightarrow> (call Cancel (fst r), Exit 0)
      | None \<Rightarrow> (fst r, case first_signal hs of Some s \<Rightarrow> Killed | None \<Rightarrow> Blocked))"

text \<open>
  Lines 308-314: the location of the configured zone, or UTC when it does not load.
  The store into \<^verbatim>\<open>*timezone\<close> is recorded in \<open>out\<close>: the file writers were given that
  pointer (line 249).
\<close>

definition main_timezone :: "extern \<Rightarrow> globals \<Rightarrow> globals \<times> string" where
  "main_timezone x g =
     (case LoadLocation x (timezone (fl g)) of
        Inl err \<Rightarrow>
          let ga = call (StoreTimezone ''UTC'') (g\<lparr>fl := (fl g)\<lparr>timezone := ''UTC''\<rparr>\<rparr>)
          in (jlog ERROR emptyTcpdumpJob
                (''could not load timezone '' @ [CHR 0x27] @ timezone (fl ga) @
                 [CHR 0x27] @ '': '' @ err) ga, ''UTC'')
      | Inr l \<Rightarrow> (g, l))"

text \<open>
  Lines 308-386, scheduling on. Only the goroutine of \<^verbatim>\<open>main\<close> and the signal handler
  are followed: what the scheduler's own goroutines print during an execution is not
  part of \<open>out\<close> here.
\<close>

definition main_cron ::
  "extern \<Rightarrow> int \<Rightarrow> pcapTask list \<Rightarrow> happening list \<Rightarrow> globals \<Rightarrow> globals \<times> outcome" where
  "main_cron x timeout ts hs g =
     (let g1 = fst (main_timezone x g);
          location = snd (main_timezone x g);
          g2 = jlog INFO emptyTcpdumpJob (''parsed timezone: '' @ location) g1
      in case NewScheduler x location of
           Some err \<Rightarrow>
             (jlog ERROR emptyTcpdumpJob (''failed to create scheduler: '' @ err) g2, Exit 2)
         | None \<Rightarrow>
             (case NewJob x (''TZ='' @ timezone (fl g2) @ '' '' @ cron_exp (fl g2)) of
                Inl err \<Rightarrow>
                  (call Shutdown
                     (jlog ERROR emptyTcpdumpJob
                        (''failed to create scheduled job: '' @ err) g2), Exit 3)
              | Inr j \<Rightarrow>
                  let g3 = g2\<lparr>jid := ID j\<rparr>;
                      job = \<lparr>Xid = [], Jid = uuid_String (ID j), Name = JobName j,
                             Tags = JobTags j, tasks = ts\<rparr>;
                      g4 = g3\<lparr>jobs := (jobs g3)(ID j \<mapsto> job)\<rparr>;
                      g5 = jlog INFO job ''scheduled job'' g4;
                      g6 = call SchedulerStart g5;
                      g7 = jlog INFO job (''next execution: '' @ NextRun j) g6
                  in (case first_signal hs of
                        None \<Rightarrow> (g7, Blocked)
                      | Some sg \<Rightarrow>
                          (let g8 = call Cancel (jlog INFO job (''signaled: '' @ sg) g7);
                               g9 = call Shutdown (call (RemoveJob (ID j)) (call StopJobs g8))
                           in (call Cancel g9, Exit 0)))))"

text \<open>
  \<^verbatim>\<open>main\<close>, after \<^verbatim>\<open>flag.Parse\<close>. The timeout is the flag times \<^verbatim>\<open>time.Second\<close> in
  64-bit arithmetic.
\<close>

definition main :: "host \<Rightarrow> extern \<Rightarrow> happening list \<Rightarrow> globals \<Rightarrow> globals \<times> outcome" where
  "main h x hs g0 =
     (let g1 = g0\<lparr>jid := uuid_Nil, xid := uuid_Nil\<rparr>;
          g2 = jlog INFO emptyTcpdumpJob (args_message (fl g1)) g1
      in case createTasks g2 h of
           None \<Rightarrow> (g2, Unmodelled)
         | Some r \<Rightarrow>
             let g3 = fst r; ts = snd r in
             if length ts = 0
             then (jlog ERROR emptyTcpdumpJob ''no PCAP tasks available'' g3, Exit 1)
             else
               let timeout = sint (word_of_int (duration (fl g3)) * 1000000000 :: 64 word);
                   g4 = jlog INFO emptyTcpdumpJob
                          (''parsed timeout: '' @ show_Duration x timeout) g3
               in if \<not> use_cron (fl g4) then main_oneshot timeout ts hs g4
                  else main_cron x timeout ts hs g4)"

subsection \<open>Reading a run\<close>

text \<open>The configuration an engine was built from, and those handed to engine constructors.\<close>

fun engine_config :: "PcapEngine \<Rightarrow> PcapConfig" where
  "engine_config (Tcpdump c) = c"
| "engine_config (Pcap c) = c"

fun engine_calls :: "action list \<Rightarrow> PcapConfig list" where
  "engine_calls [] = []"
| "engine_calls (Call_NewTcpdump c # as) = c # engine_calls as"
| "engine_calls (Call_NewPcap c # as) = c # engine_calls as"
| "engine_calls (a # as) = engine_calls as"

text \<open>The configurations handed to the decoded engine's constructor.\<close>

fun pcap_calls :: "action list \<Rightarrow> PcapConfig list" where
  "pcap_calls [] = []"
| "pcap_calls (Call_NewPcap c # as) = c # pcap_calls as"
| "pcap_calls (a # as) = pcap_calls as"

text \<open>The severity and the message of a printed line.\<close>

fun line_field :: "string \<Rightarrow> action \<Rightarrow> json option" where
  "line_field k (Println j) = jfield k j"
| "line_field k a = None"

text \<open>
  A printed line carries both identities: its object \<^verbatim>\<open>job\<close> has the fields
  \<^verbatim>\<open>xid\<close> and \<^verbatim>\<open>jid\<close>.
\<close>

fun carries_ids :: "action \<Rightarrow> bool" where
  "carries_ids (Println j) =
     (case jfield ''job'' j of
        None \<Rightarrow> False
      | Some jb \<Rightarrow> jfield ''xid'' jb \<noteq> None \<and> jfield ''jid'' jb \<noteq> None)"
| "carries_ids a = True"

definition is_error_line :: "action \<Rightarrow> bool" where
  "is_error_line a = (line_field ''severity'' a = Some (JString ''ERROR''))"

definition says :: "string \<Rightarrow> action \<Rightarrow> bool" where
  "says m a = (line_field ''message'' a = Some (JString m))"

text \<open>The messages of the ERROR lines among some actions, in their order.\<close>

fun error_messages :: "action list \<Rightarrow> string list" where
  "error_messages [] = []"
| "error_messages (a # as) =
     (if is_error_line a
      then (case line_field ''message'' a of Some (JString m) \<Rightarrow> [m] | _ \<Rightarrow> [])
      else []) @ error_messages as"

text \<open>The time that passes in a list of events.\<close>

fun elapsed :: "event list \<Rightarrow> int" where
  "elapsed [] = 0"
| "elapsed (Elapse n # es) = int n + elapsed es"
| "elapsed (e # es) = elapsed es"

text \<open>
  The state in which \<^verbatim>\<open>main\<close> calls \<^verbatim>\<open>createTasks\<close> (lines 282-287), the timeout
  it computes (line 296), and the location and the crontab it takes to the scheduler
  (lines 309-315 and 339).
\<close>

definition main_start :: "globals \<Rightarrow> globals" where
  "main_start g0 =
     jlog INFO emptyTcpdumpJob (args_message (fl g0)) (g0\<lparr>jid := uuid_Nil, xid := uuid_Nil\<rparr>)"

definition timeout_of :: "flags \<Rightarrow> int" where
  "timeout_of f = sint (word_of_int (duration f) * 1000000000 :: 64 word)"

definition location_of :: "extern \<Rightarrow> flags \<Rightarrow> string" where
  "location_of x f = (case LoadLocation x (timezone f) of Inl err \<Rightarrow> ''UTC'' | Inr l \<Rightarrow> l)"

definition crontab_of :: "extern \<Rightarrow> flags \<Rightarrow> string" where
  "crontab_of x f =
     ''TZ='' @ (case LoadLocation x (timezone f) of Inl err \<Rightarrow> ''UTC'' | Inr l \<Rightarrow> timezone f) @
     '' '' @ cron_exp f"

text \<open>
  The specification's description of the selected names (section 4.1): an optional
  \<^verbatim>\<open>ipvlan-\<close>, the pattern as a literal, then a digit.
\<close>

definition has_form :: "string \<Rightarrow> string \<Rightarrow> bool" where
  "has_form pat s =
     (take (length pat) s = pat \<and>
      (case drop (length pat) s of [] \<Rightarrow> False | d # rest \<Rightarrow> is_digit d))"

definition literal_form :: "string \<Rightarrow> string \<Rightarrow> bool" where
  "literal_form pat s =
     (has_form pat s \<or> (take 7 s = ''ipvlan-'' \<and> has_form pat (drop 7 s)))"











text \<open>
  After every event the caller of \<^verbatim>\<open>start\<close> has gone as far as it can: it waits for
  the scope exactly while the scope is not done, and it has returned exactly when the
  scope is done and no goroutine is left.
\<close>

definition settled :: "int \<Rightarrow> start_state \<Rightarrow> bool" where
  "settled t s =
     ((phase s = Returned) = (scope_done t s \<and> running s = []) \<and>
      (phase s = AwaitScope) = (\<not> scope_done t s))"

text \<open>A capture configuration in promiscuous mode with no timestamp type.\<close>

definition promiscuous :: "PcapConfig \<Rightarrow> bool" where
  "promiscuous c = (Promisc c \<and> TsType c = [])"

subsection \<open>Sample inputs\<close>

text \<open>A device on which every call succeeds, and one that does not resolve.\<close>

definition ok_probe :: "int \<Rightarrow> string \<Rightarrow> probe" where
  "ok_probe i n =
     \<lparr>InterfaceByName = Inr \<lparr>Index = i, Name = n\<rparr>, NewTcpdump = (\<lambda>c. None),
      NewPcap = (\<lambda>c. None), NewPcapWriter = (\<lambda>a b c d. None), NewStdoutPcapWriter = None\<rparr>"

definition gone_probe :: probe where
  "gone_probe =
     \<lparr>InterfaceByName = Inl ''no such network interface'', NewTcpdump = (\<lambda>c. None),
      NewPcap = (\<lambda>c. None), NewPcapWriter = (\<lambda>a b c d. None), NewStdoutPcapWriter = None\<rparr>"

definition sample_flags :: flags where
  "sample_flags =
     \<lparr>use_cron = False, cron_exp = ''* * * * *'', timezone = ''UTC'', duration = 0,
      interval = 60, snaplen = 0, filter_flag = [], extension = ''pcap'',
      directory = ''/pcap'', tcp_dump = True, json_dump = False, json_log = False,
      ordered = False\<rparr>"

definition sample_globals :: globals where
  "sample_globals =
     \<lparr>fl = sample_flags, ifacePattern = ''eth'', sidecar = ''tcpdump'', module = ''pcap'',
      jobs = Map.empty, jid = uuid_Nil, xid = uuid_Nil, out = []\<rparr>"

text \<open>Libraries that know the zone UTC only and accept every scheduler and job.\<close>

definition sample_extern :: extern where
  "sample_extern =
     \<lparr>LoadLocation = (\<lambda>n. if n = ''UTC'' then Inr ''UTC''
                          else Inl (''unknown time zone '' @ n)),
      NewScheduler = (\<lambda>l. None),
      NewJob = (\<lambda>c. Inr \<lparr>ID = 5, JobName = ''tcpdump'', JobTags = [''project''],
                          NextRun = ''soon''\<rparr>),
      show_Duration = (\<lambda>d. show_int d @ ''ns'')\<rparr>"

definition sample_host :: host where
  "sample_host =
     [(''eth0'', ok_probe 2 ''eth0''), (''lo'', ok_probe 1 ''lo''),
      (''ipvlan-eth1'', ok_probe 3 ''ipvlan-eth1'')]"

definition sample_task :: pcapTask where
  "sample_task =
     \<lparr>engine = Tcpdump (newPcapConfig ''eth0'' ''pcap'' ''/pcap/part'' ''pcap'' [] 0 60),
      writers = []\<rparr>"

definition sample_job :: tcpdumpJob where
  "sample_job =
     \<lparr>Xid = [], Jid = uuid_String 5, Name = ''tcpdump'', Tags = [''project''],
      tasks = [sample_task]\<rparr>"

definition sample_registered :: globals where
  "sample_registered = sample_globals\<lparr>jid := 5, jobs := [5 \<mapsto> sample_job]\<rparr>"






text \<open>
  A host with the one interface \<^verbatim>\<open>eth0\<close> and the task built for it; settings with
  scheduling on, with a timeout of one second, with an unknown time zone; libraries
  that refuse the scheduler, or the job.
\<close>

definition eth0_host :: host where
  "eth0_host = [(''eth0'', ok_probe 2 ''eth0'')]"

definition eth0_task :: pcapTask where
  "eth0_task =
     \<lparr>engine = Tcpdump (newPcapConfig ''eth0'' ''pcap'' ''/pcap/part__2_eth0__%Y%m%d_%H%M%S''
                 ''pcap'' [] 0 60),
      writers = []\<rparr>"

definition sample_cron :: globals where
  "sample_cron = sample_globals\<lparr>fl := sample_flags\<lparr>use_cron := True\<rparr>\<rparr>"

definition sample_timed :: globals where
  "sample_timed = sample_globals\<lparr>fl := sample_flags\<lparr>duration := 1\<rparr>\<rparr>"

definition no_scheduler :: extern where
  "no_scheduler = sample_extern\<lparr>NewScheduler := (\<lambda>l. Some ''scheduler refused'')\<rparr>"

definition no_job :: extern where
  "no_job = sample_extern\<lparr>NewJob := (\<lambda>c. Inl ''crontab refused'')\<rparr>"

definition sample_mars :: globals where
  "sample_mars =
     sample_globals\<lparr>fl := sample_flags\<lparr>use_cron := True, timezone := ''Mars/Phobos''\<rparr>\<rparr>"

subsection \<open>What one pass of the loop adds\<close>

text \<open>
  The tasks and the actions that the pass for one device appends. The tasks do not
  depend on the state the pass starts from, and the actions depend on it only through
  the fields \<^verbatim>\<open>jlog\<close> reads (lemmas \<open>iface_shift\<close> and \<open>pass_out_cong\<close> below).
\<close>

definition json_pass_tasks :: "flags \<Rightarrow> probe \<Rightarrow> string \<Rightarrow> PcapConfig \<Rightarrow> pcapTask list" where
  "json_pass_tasks f w output c = snd (createTasks_json f w [] output c (sample_globals, []))"

definition json_pass_out ::
  "flags \<Rightarrow> probe \<Rightarrow> string \<Rightarrow> string \<Rightarrow> PcapConfig \<Rightarrow> globals \<Rightarrow> action list" where
  "json_pass_out f w i output c g =
     out (fst (createTasks_json f w i output c (g\<lparr>out := []\<rparr>, [])))"

definition pass_tasks :: "flags \<Rightarrow> string \<times> probe \<Rightarrow> pcapTask list" where
  "pass_tasks f d = snd (createTasks_iface f d (sample_globals, []))"

definition pass_out :: "flags \<Rightarrow> string \<times> probe \<Rightarrow> globals \<Rightarrow> action list" where
  "pass_out f d g = out (fst (createTasks_iface f d (g\<lparr>out := []\<rparr>, [])))"

section \<open>Properties\<close>

subsection \<open>The two waits of start\<close>

lemma advance_fields [simp]:
  "cancelled (advance t s) = cancelled s" "clock (advance t s) = clock s"
  "running (advance t s) = running s"
  by (simp_all add: advance_def Let_def)

lemma scope_done_advance [simp]: "scope_done t (advance t s) = scope_done t s"
  by (simp add: scope_done_def)

lemma advance_settled:
  assumes "phase s = AwaitWorkers \<Longrightarrow> scope_done t s"
    and "phase s = Returned \<Longrightarrow> scope_done t s \<and> running s = []"
  shows "settled t (advance t s)"
  using assms
  by (cases "phase s") (auto simp: settled_def advance_def Let_def scope_done_def)

lemma deliver_phase [simp]: "phase (deliver e s) = phase s"
  by (cases e) simp_all

lemma deliver_scope_done: "scope_done t s \<Longrightarrow> scope_done t (deliver e s)"
  by (cases e) (auto simp: scope_done_def)

lemma deliver_running_Nil: "running s = [] \<Longrightarrow> running (deliver e s) = []"
  by (cases e) simp_all

lemma step_settled:
  assumes "settled t s"
  shows "settled t (advance t (deliver e s))"
proof (rule advance_settled)
  assume "phase (deliver e s) = AwaitWorkers"
  with assms show "scope_done t (deliver e s)"
    by (cases "phase s") (auto simp: settled_def deliver_scope_done)
next
  assume "phase (deliver e s) = Returned"
  with assms show "scope_done t (deliver e s) \<and> running (deliver e s) = []"
    by (auto simp: settled_def deliver_scope_done deliver_running_Nil)
qed

lemma foldl_settled:
  "settled t s \<Longrightarrow> settled t (foldl (\<lambda>s e. advance t (deliver e s)) s evs)"
  by (induction evs arbitrary: s) (simp_all add: step_settled)

lemma foldl_cancelled:
  "cancelled (foldl (\<lambda>s e. advance t (deliver e s)) s evs) =
     (cancelled s \<or> ScopeCancelled \<in> set evs)"
proof (induction evs arbitrary: s)
  case Nil
  show ?case by simp
next
  case (Cons e evs)
  show ?case by (cases e) (simp_all add: Cons.IH)
qed

lemma foldl_clock:
  "clock (foldl (\<lambda>s e. advance t (deliver e s)) s evs) = clock s + elapsed evs"
proof (induction evs arbitrary: s)
  case Nil
  show ?case by simp
next
  case (Cons e evs)
  show ?case by (cases e) (simp_all add: Cons.IH)
qed

lemma filter_removeAll_eq:
  "filter P (removeAll i xs) = filter (\<lambda>x. x \<noteq> i \<and> P x) xs"
  by (induction xs) auto

lemma foldl_running:
  "running (foldl (\<lambda>s e. advance t (deliver e s)) s evs) =
     filter (\<lambda>i. EngineReturns i \<notin> set evs) (running s)"
proof (induction evs arbitrary: s)
  case Nil
  show ?case by simp
next
  case (Cons e evs)
  show ?case
  proof (cases e)
    case (EngineReturns j)
    then show ?thesis
      by (simp add: Cons.IH filter_removeAll_eq)
  qed (simp_all add: Cons.IH)
qed

lemma start_init_settled: "settled t (advance t (start_init c n))"
  by (rule advance_settled) (simp_all add: start_init_def)

lemma start_run_returned:
  "(phase (start_run t (start_init c n) evs) = Returned) =
     ((c \<or> ScopeCancelled \<in> set evs \<or> (0 < t \<and> t \<le> elapsed evs)) \<and>
      list_all (\<lambda>i. EngineReturns i \<in> set evs) [0..<n])"
proof -
  define s where "s = start_run t (start_init c n) evs"
  have "settled t s"
    unfolding s_def start_run_def by (rule foldl_settled) (rule start_init_settled)
  then have r: "(phase s = Returned) = (scope_done t s \<and> running s = [])"
    by (simp add: settled_def)
  have c1: "cancelled s = (c \<or> ScopeCancelled \<in> set evs)"
    by (simp add: s_def start_run_def foldl_cancelled start_init_def)
  have c2: "clock s = elapsed evs"
    by (simp add: s_def start_run_def foldl_clock start_init_def)
  have c3: "running s = filter (\<lambda>i. EngineReturns i \<notin> set evs) [0..<n]"
    by (simp add: s_def start_run_def foldl_running start_init_def)
  have sd: "scope_done t s =
              (c \<or> ScopeCancelled \<in> set evs \<or> (0 < t \<and> t \<le> elapsed evs))"
    by (simp add: scope_done_def c1 c2)
  have ru: "(running s = []) = list_all (\<lambda>i. EngineReturns i \<in> set evs) [0..<n]"
    unfolding c3 by (simp only: filter_empty_conv list_all_iff) simp
  show ?thesis
    unfolding s_def [symmetric] by (simp only: r sd ru)
qed

lemma start_result:
  "snd (start c t ts evs g) =
     (if (c \<or> ScopeCancelled \<in> set evs \<or> (0 < t \<and> t \<le> elapsed evs)) \<and>
         list_all (\<lambda>i. EngineReturns i \<in> set evs) [0..<length ts]
      then Some None else None)"
  by (simp add: start_def Let_def start_run_returned)

lemma start_out: "fst (start c t ts evs g) = g\<lparr>out := out g @ map EngineStart ts\<rparr>"
  by (simp add: start_def Let_def)

text \<open>
  Claim C2, as amended. \<^verbatim>\<open>start\<close> has returned exactly when its scope has ended (the
  base scope was cancelled, or the timeout is positive and has elapsed) and every
  per-task goroutine has returned; it never returns an error. Tasks that finish by
  themselves do not end the run: with timeout 0 the run ends only once the base scope
  is cancelled.
\<close>

theorem start_returns_iff:
  "(snd (start c t ts evs g) = Some None) =
     ((c \<or> ScopeCancelled \<in> set evs \<or> (0 < t \<and> t \<le> elapsed evs)) \<and>
      list_all (\<lambda>i. EngineReturns i \<in> set evs) [0..<length ts]) \<and>
   (snd (start c 0 ts evs g) = Some None) =
     ((c \<or> ScopeCancelled \<in> set evs) \<and>
      list_all (\<lambda>i. EngineReturns i \<in> set evs) [0..<length ts]) \<and>
   snd (start c t ts evs g) \<noteq> Some (Some m)"
  by (simp add: start_result)

text \<open>
  A run of five time units over one task: it has not returned when only the engine has
  returned, nor when only the deadline has passed, and it has returned after both.
\<close>

theorem start_returns_iff_witness:
  "snd (start False 5 [sample_task] [EngineReturns 0, Elapse 3] sample_globals) = None \<and>
   snd (start False 5 [sample_task] [Elapse 3, Elapse 3] sample_globals) = None \<and>
   snd (start False 5 [sample_task] [Elapse 3, EngineReturns 0, Elapse 3] sample_globals)
     = Some None"
proof -
  have a: "snd (start False 5 [sample_task] [EngineReturns 0, Elapse 3] sample_globals)
             \<noteq> Some None"
    using start_returns_iff [of False 5 "[sample_task]" "[EngineReturns 0, Elapse 3]"
        sample_globals]
    by simp
  have b: "snd (start False 5 [sample_task] [Elapse 3, Elapse 3] sample_globals) \<noteq> Some None"
    using start_returns_iff [of False 5 "[sample_task]" "[Elapse 3, Elapse 3]" sample_globals]
    by simp
  have c: "snd (start False 5 [sample_task] [Elapse 3, EngineReturns 0, Elapse 3]
             sample_globals) = Some None"
    using start_returns_iff [of False 5 "[sample_task]"
        "[Elapse 3, EngineReturns 0, Elapse 3]" sample_globals]
    by simp
  have d: "\<And>r. r \<noteq> Some None \<Longrightarrow> (\<And>m. r \<noteq> Some (Some m)) \<Longrightarrow> r = None"
    by (metis option.exhaust)
  from a b c show ?thesis
    using start_returns_iff [of False 5 "[sample_task]" "[EngineReturns 0, Elapse 3]"
        sample_globals]
      start_returns_iff [of False 5 "[sample_task]" "[Elapse 3, Elapse 3]" sample_globals]
    by (auto intro!: d)
qed

text \<open>
  Claim C2 as stated fails: with timeout 0 and a base scope nobody cancels, the only
  task's engine returns by itself, and \<^verbatim>\<open>start\<close> is still blocked on line 147.
\<close>

theorem start_natural_finish_counterexample:
  "EngineReturns 0 \<in> set [EngineReturns 0] \<and> length [sample_task] = 1 \<and>
   snd (start False 0 [sample_task] [EngineReturns 0] sample_globals) = None"
  by (simp add: start_def start_run_def start_init_def advance_def scope_done_def Let_def)

subsection \<open>Log entries\<close>

lemma uuid_String_not_Nil [simp]: "uuid_String u \<noteq> []"
  by (simp add: uuid_String_def)

lemma uuid_String_Nil: "uuid_String uuid_Nil = ''00000000-0000-0000-0000-000000000000''"
  by (simp add: uuid_String_def uuid_Nil_def uuid_byte_def hexbyte_def hexdigit_def)

lemma jlog_entry_out [simp]: "jlog_entry s j m (g\<lparr>out := x\<rparr>) = jlog_entry s j m g"
  by (simp add: jlog_entry_def)

lemma jlog_frame: "jlog s j m g = g\<lparr>out := out g @ [Println (Marshal (jlog_entry s j m g))]\<rparr>"
  by (simp add: jlog_def)

subsection \<open>The scheduled function\<close>

text \<open>
  Claim C10. \<^verbatim>\<open>tcpdump\<close> returns an error exactly when the current job identity is
  not in the registry. It then prints one ERROR line with the placeholder job, starts
  no engine and returns the error at once. Otherwise it is \<^verbatim>\<open>start\<close> on the job's
  tasks, which returns \<^verbatim>\<open>nil\<close> if it returns: it has returned once the scope has
  ended and every engine has returned, and is blocked until then.
\<close>

theorem tcpdump_error_iff:
  "(\<exists>m. snd (tcpdump c t evs g) = Some (Some m)) = (jobs g (jid g) = None) \<and>
   (jobs g (jid g) = None \<longrightarrow>
      tcpdump c t evs g =
        (g\<lparr>out := out g @
            [Println (Marshal (jlog_entry ERROR emptyTcpdumpJob
               (''job[id:'' @ uuid_String (jid g) @ ''] not found'') g))]\<rparr>,
         Some (Some (''job[id:'' @ uuid_String (jid g) @ ''] not found'')))) \<and>
   (\<forall>job. jobs g (jid g) = Some job \<longrightarrow>
      tcpdump c t evs g = start c t (tasks job) evs g \<and>
      snd (tcpdump c t evs g) =
        (if (c \<or> ScopeCancelled \<in> set evs \<or> (0 < t \<and> t \<le> elapsed evs)) \<and>
            list_all (\<lambda>i. EngineReturns i \<in> set evs) [0..<length (tasks job)]
         then Some None else None))"
  by (cases "jobs g (jid g)") (simp_all add: tcpdump_def Let_def jlog_frame start_result)


text \<open>
  With an empty registry the error names the nil identity. With the job registered and
  one task, the call returns \<^verbatim>\<open>nil\<close> after the engine has returned and the scope was
  cancelled, and is blocked while the scope lives.
\<close>

theorem tcpdump_error_iff_witness:
  "jobs sample_globals (jid sample_globals) = None \<and>
   snd (tcpdump False 0 [] sample_globals) =
     Some (Some ''job[id:00000000-0000-0000-0000-000000000000] not found'') \<and>
   jobs sample_registered (jid sample_registered) = Some sample_job \<and>
   snd (tcpdump False 0 [EngineReturns 0, ScopeCancelled] sample_registered) = Some None \<and>
   snd (tcpdump False 0 [EngineReturns 0] sample_registered) = None"
proof -
  have a: "jobs sample_globals (jid sample_globals) = None"
    by (simp add: sample_globals_def)
  have b: "jobs sample_registered (jid sample_registered) = Some sample_job"
    by (simp add: sample_registered_def)
  have n: "uuid_String (jid sample_globals) = ''00000000-0000-0000-0000-000000000000''"
    by (simp add: sample_globals_def uuid_String_Nil)
  have "tcpdump False 0 [] sample_globals =
          (sample_globals\<lparr>out := out sample_globals @
             [Println (Marshal (jlog_entry ERROR emptyTcpdumpJob
                (''job[id:'' @ uuid_String (jid sample_globals) @ ''] not found'')
                sample_globals))]\<rparr>,
           Some (Some (''job[id:'' @ uuid_String (jid sample_globals) @ ''] not found'')))"
    using tcpdump_error_iff [of False 0 "[]" sample_globals] a by blast
  then have c: "snd (tcpdump False 0 [] sample_globals) =
                  Some (Some ''job[id:00000000-0000-0000-0000-000000000000] not found'')"
    by (simp add: n)
  have "snd (tcpdump False 0 [EngineReturns 0, ScopeCancelled] sample_registered) =
          (if (False \<or> ScopeCancelled \<in> set [EngineReturns 0, ScopeCancelled] \<or>
               (0 < (0::int) \<and> 0 \<le> elapsed [EngineReturns 0, ScopeCancelled])) \<and>
              list_all (\<lambda>i. EngineReturns i \<in> set [EngineReturns 0, ScopeCancelled])
                [0..<length (tasks sample_job)]
           then Some None else None)"
    using tcpdump_error_iff [of False 0 "[EngineReturns 0, ScopeCancelled]" sample_registered]
      b by blast
  then have d: "snd (tcpdump False 0 [EngineReturns 0, ScopeCancelled] sample_registered) =
                  Some None"
    by (simp add: sample_job_def)
  have "snd (tcpdump False 0 [EngineReturns 0] sample_registered) =
          (if (False \<or> ScopeCancelled \<in> set [EngineReturns 0] \<or>
               (0 < (0::int) \<and> 0 \<le> elapsed [EngineReturns 0])) \<and>
              list_all (\<lambda>i. EngineReturns i \<in> set [EngineReturns 0])
                [0..<length (tasks sample_job)]
           then Some None else None)"
    using tcpdump_error_iff [of False 0 "[EngineReturns 0]" sample_registered] b by blast
  then have e: "snd (tcpdump False 0 [EngineReturns 0] sample_registered) = None"
    by (simp add: sample_job_def)
  from a b c d e show ?thesis by simp
qed

subsection \<open>The loop of createTasks, pass by pass\<close>

lemma engine_calls_append: "engine_calls (xs @ ys) = engine_calls xs @ engine_calls ys"
  by (induction xs rule: engine_calls.induct) simp_all

lemma json_tasks_shift:
  "snd (createTasks_json f w i oput c (g, ts)) = ts @ json_pass_tasks f w oput c"
  by (simp add: json_pass_tasks_def createTasks_json_def Let_def split: option.split)

lemma json_out_shift:
  "fst (createTasks_json f w i oput c (g, ts)) =
     g\<lparr>out := out g @ json_pass_out f w i oput c g\<rparr>"
  by (simp add: json_pass_out_def createTasks_json_def Let_def jlog_frame call_def
        split: option.split)

lemma json_shift:
  "createTasks_json f w i oput c (g, ts) =
     (g\<lparr>out := out g @ json_pass_out f w i oput c g\<rparr>, ts @ json_pass_tasks f w oput c)"
  by (simp add: prod_eq_iff json_tasks_shift json_out_shift)

lemma json_pass_out_cong [simp]:
  "json_pass_out f w i oput c (g\<lparr>out := x\<rparr>) = json_pass_out f w i oput c g"
  by (simp add: json_pass_out_def)

lemma iface_tasks_shift:
  "snd (createTasks_iface f d (g, ts)) = ts @ pass_tasks f d"
  by (simp add: pass_tasks_def createTasks_iface_def Let_def json_shift
        split: option.split sum.split)

lemma iface_out_shift:
  "fst (createTasks_iface f d (g, ts)) = g\<lparr>out := out g @ pass_out f d g\<rparr>"
  by (simp add: pass_out_def createTasks_iface_def Let_def json_shift jlog_frame call_def
        split: option.split sum.split)

lemma iface_shift:
  "createTasks_iface f d (g, ts) =
     (g\<lparr>out := out g @ pass_out f d g\<rparr>, ts @ pass_tasks f d)"
  by (simp add: prod_eq_iff iface_tasks_shift iface_out_shift)

lemma pass_out_cong: "pass_out f d (g\<lparr>out := x\<rparr>) = pass_out f d g"
  by (simp add: pass_out_def)

lemma loop_shift:
  "fold (createTasks_iface f) ds (g, ts) =
     (g\<lparr>out := out g @ concat (map (\<lambda>d. pass_out f d g) ds)\<rparr>,
      ts @ concat (map (pass_tasks f) ds))"
proof (induction ds arbitrary: g ts)
  case Nil
  show ?case by simp
next
  case (Cons d ds)
  have "fold (createTasks_iface f) (d # ds) (g, ts) =
          fold (createTasks_iface f) ds (createTasks_iface f d (g, ts))"
    by simp
  also have "\<dots> = fold (createTasks_iface f) ds
                    (g\<lparr>out := out g @ pass_out f d g\<rparr>, ts @ pass_tasks f d)"
    by (simp only: iface_shift)
  also have "\<dots> = (g\<lparr>out := out g @ concat (map (\<lambda>d. pass_out f d g) (d # ds))\<rparr>,
                   ts @ concat (map (pass_tasks f) (d # ds)))"
    unfolding Cons.IH by (simp add: pass_out_cong)
  finally show ?case .
qed

lemma createTasks_Some:
  assumes "createTasks g h = Some r"
  obtains ds where "DeviceSelector (ifacePattern g) h = Some ds"
    and "r = (g\<lparr>out := out g @ concat (map (\<lambda>d. pass_out (fl g) d g) ds)\<rparr>,
              concat (map (pass_tasks (fl g)) ds))"
  using assms by (auto simp: createTasks_def loop_shift split: option.splits)

text \<open>The equations that evaluate \<^verbatim>\<open>createTasks\<close> on the sample inputs.\<close>

lemmas eval_defs =
  createTasks_def DeviceSelector_def ifaceRegexp_def plain_def meta_def
  FindDevicesByRegex_def MatchString_def is_digit_def createTasks_iface_def
  createTasks_json_def jlog_def jlog_entry_def call_def Let_def newPcapConfig_def
  sample_globals_def sample_flags_def sample_host_def ok_probe_def gone_probe_def
  show_int_def show_nat.simps

subsection \<open>Promiscuous mode\<close>

lemma newPcapConfig_promiscuous [simp]:
  "promiscuous (newPcapConfig iface format output ext flt snap intv)"
  by (simp add: promiscuous_def newPcapConfig_def)

lemma promiscuous_Ordered [simp]: "promiscuous (c\<lparr>Ordered := b\<rparr>) = promiscuous c"
  by (simp add: promiscuous_def)

lemma json_pass_promiscuous:
  assumes "promiscuous c"
  shows "list_all promiscuous (engine_calls (json_pass_out f w i oput c g))"
    and "list_all (\<lambda>t. promiscuous (engine_config (engine t))) (json_pass_tasks f w oput c)"
  using assms
  by (simp_all add: json_pass_out_def json_pass_tasks_def createTasks_json_def Let_def
        jlog_frame call_def engine_calls_append split: option.split)

lemma pass_promiscuous:
  shows "list_all promiscuous (engine_calls (pass_out f d g))"
    and "list_all (\<lambda>t. promiscuous (engine_config (engine t))) (pass_tasks f d)"
  by (simp_all add: pass_out_def pass_tasks_def createTasks_iface_def Let_def json_shift
        jlog_frame call_def engine_calls_append json_pass_promiscuous
        split: option.split sum.split)

lemma loop_promiscuous:
  shows "list_all promiscuous (engine_calls (concat (map (\<lambda>d. pass_out f d g) ds)))"
    and "list_all (\<lambda>t. promiscuous (engine_config (engine t))) (concat (map (pass_tasks f) ds))"
  by (induction ds) (simp_all add: engine_calls_append pass_promiscuous)

text \<open>
  Claim C9. Every configuration \<^verbatim>\<open>newPcapConfig\<close> builds is promiscuous with an empty
  timestamp type, whatever its arguments. So is every configuration \<^verbatim>\<open>createTasks\<close>
  hands to an engine constructor (raw or decoded, for every device, under every setting
  of the flags and the environment), and the configuration of every task it returns.
\<close>

theorem promiscuous_always:
  "promiscuous (newPcapConfig iface format output ext flt snap intv) \<and>
   (createTasks g h = Some r \<longrightarrow>
      list_all promiscuous (engine_calls (drop (length (out g)) (out (fst r)))) \<and>
      list_all (\<lambda>t. promiscuous (engine_config (engine t))) (snd r))"
proof (intro conjI impI)
  show "promiscuous (newPcapConfig iface format output ext flt snap intv)"
    by simp
next
  assume "createTasks g h = Some r"
  then obtain ds where
    r: "r = (g\<lparr>out := out g @ concat (map (\<lambda>d. pass_out (fl g) d g) ds)\<rparr>,
             concat (map (pass_tasks (fl g)) ds))"
    by (rule createTasks_Some)
  show "list_all promiscuous (engine_calls (drop (length (out g)) (out (fst r))))"
    by (simp add: r loop_promiscuous)
  show "list_all (\<lambda>t. promiscuous (engine_config (engine t))) (snd r)"
    by (simp add: r loop_promiscuous)
qed


text \<open>
  On the sample host, with both decoded flags on, four engine constructors are called
  (raw and decoded, for \<^verbatim>\<open>eth0\<close> and \<^verbatim>\<open>ipvlan-eth1\<close>), each with a promiscuous
  configuration.
\<close>

theorem promiscuous_always_witness:
  "createTasks (sample_globals\<lparr>fl := sample_flags\<lparr>json_dump := True, json_log := True\<rparr>\<rparr>)
     sample_host \<noteq> None \<and>
   length (engine_calls (out (fst (the (createTasks
     (sample_globals\<lparr>fl := sample_flags\<lparr>json_dump := True, json_log := True\<rparr>\<rparr>)
     sample_host))))) = 4 \<and>
   list_all promiscuous (engine_calls (out (fst (the (createTasks
     (sample_globals\<lparr>fl := sample_flags\<lparr>json_dump := True, json_log := True\<rparr>\<rparr>)
     sample_host))))) \<and>
   list_all (\<lambda>t. promiscuous (engine_config (engine t))) (snd (the (createTasks
     (sample_globals\<lparr>fl := sample_flags\<lparr>json_dump := True, json_log := True\<rparr>\<rparr>)
     sample_host)))"
proof -
  define g where "g = sample_globals\<lparr>fl := sample_flags\<lparr>json_dump := True, json_log := True\<rparr>\<rparr>"
  obtain r where r: "createTasks g sample_host = Some r"
    by (simp add: g_def createTasks_def DeviceSelector_def ifaceRegexp_def plain_def meta_def
          sample_globals_def)
  have o: "out g = []"
    by (simp add: g_def sample_globals_def)
  have n: "length (engine_calls (out (fst (the (createTasks g sample_host))))) = 4"
    by (simp add: g_def eval_defs)
  from promiscuous_always [of _ _ _ _ _ _ _ g sample_host r] r o n
  show ?thesis
    unfolding g_def [symmetric] by simp
qed


subsection \<open>The guard of the decoded capture\<close>

text \<open>
  Claim C3 asks for the decoded capture to be set up as soon as one decoded sink is
  enabled. The guard of line 230 skips it unless both flags are set: with console
  mirroring off, whatever \<^verbatim>\<open>jsondump\<close> is, the decoded part of a pass changes nothing,
  the decoded engine's constructor is never called, and the pass builds no task with a
  writer.
\<close>

theorem console_off_skips_decoded:
  "\<not> json_log f \<longrightarrow>
     createTasks_json f w i oput c st = st \<and>
     pcap_calls (pass_out f d g) = [] \<and>
     list_all (\<lambda>t. writers t = []) (pass_tasks f d)"
  by (simp add: createTasks_json_def pass_out_def pass_tasks_def createTasks_iface_def
        Let_def jlog_frame call_def split: option.split sum.split)

text \<open>
  \<^verbatim>\<open>-jsondump=true -jsonlog=false\<close> on one healthy device: the raw task only. With
  both flags the decoded task is built as well, with its file writer and the console
  writer (lines 258-261, which handle \<^verbatim>\<open>jsonlog\<close> off, are never reached).
\<close>

theorem console_off_skips_decoded_witness:
  "\<not> json_log (sample_flags\<lparr>json_dump := True\<rparr>) \<and>
   map_option snd (createTasks (sample_globals\<lparr>fl := sample_flags\<lparr>json_dump := True\<rparr>\<rparr>)
     [(''eth0'', ok_probe 2 ''eth0'')]) =
     Some [\<lparr>engine = Tcpdump (newPcapConfig ''eth0'' ''pcap''
              ''/pcap/part__2_eth0__%Y%m%d_%H%M%S'' ''pcap'' [] 0 60), writers = []\<rparr>] \<and>
   pcap_calls (pass_out (sample_flags\<lparr>json_dump := True\<rparr>) (''eth0'', ok_probe 2 ''eth0'')
     sample_globals) = [] \<and>
   map_option snd (createTasks
     (sample_globals\<lparr>fl := sample_flags\<lparr>json_dump := True, json_log := True\<rparr>\<rparr>)
     [(''eth0'', ok_probe 2 ''eth0'')]) =
     Some [\<lparr>engine = Tcpdump (newPcapConfig ''eth0'' ''pcap''
              ''/pcap/part__2_eth0__%Y%m%d_%H%M%S'' ''pcap'' [] 0 60), writers = []\<rparr>,
           \<lparr>engine = Pcap (newPcapConfig ''eth0'' ''json''
              ''/pcap/part__2_eth0__%Y%m%d_%H%M%S'' ''json'' [] 0 60),
            writers = [FileWriter ''/pcap/part__2_eth0__%Y%m%d_%H%M%S'' ''json'' ''UTC'' 60,
                       StdoutWriter]\<rparr>]"
proof -
  have a: "\<not> json_log (sample_flags\<lparr>json_dump := True\<rparr>)"
    by (simp add: sample_flags_def)
  have b: "map_option snd (createTasks (sample_globals\<lparr>fl := sample_flags\<lparr>json_dump := True\<rparr>\<rparr>)
     [(''eth0'', ok_probe 2 ''eth0'')]) =
     Some [\<lparr>engine = Tcpdump (newPcapConfig ''eth0'' ''pcap''
              ''/pcap/part__2_eth0__%Y%m%d_%H%M%S'' ''pcap'' [] 0 60), writers = []\<rparr>]"
    by (simp add: eval_defs)
  have c: "map_option snd (createTasks
     (sample_globals\<lparr>fl := sample_flags\<lparr>json_dump := True, json_log := True\<rparr>\<rparr>)
     [(''eth0'', ok_probe 2 ''eth0'')]) =
     Some [\<lparr>engine = Tcpdump (newPcapConfig ''eth0'' ''pcap''
              ''/pcap/part__2_eth0__%Y%m%d_%H%M%S'' ''pcap'' [] 0 60), writers = []\<rparr>,
           \<lparr>engine = Pcap (newPcapConfig ''eth0'' ''json''
              ''/pcap/part__2_eth0__%Y%m%d_%H%M%S'' ''json'' [] 0 60),
            writers = [FileWriter ''/pcap/part__2_eth0__%Y%m%d_%H%M%S'' ''json'' ''UTC'' 60,
                       StdoutWriter]\<rparr>]"
    by (simp add: eval_defs)
  from a b c
    console_off_skips_decoded [of "sample_flags\<lparr>json_dump := True\<rparr>" _ _ _ _ _
      "(''eth0'', ok_probe 2 ''eth0'')" sample_globals]
  show ?thesis by simp
qed


subsection \<open>Failures stay with their interface\<close>

lemma jlog_entry_fields [simp]:
  "Severity (jlog_entry sev j m g) = sev" "Message (jlog_entry sev j m g) = m"
  by (simp_all add: jlog_entry_def)

lemma is_error_line_Marshal [simp]:
  "is_error_line (Println (Marshal e)) = (Severity e = ERROR)"
  by (cases "Severity e") (simp_all add: is_error_line_def Marshal_def level_string_def)

lemma is_error_line_call [simp]:
  "\<not> is_error_line (Call_NewTcpdump c)" "\<not> is_error_line (Call_NewPcap c)"
  "\<not> is_error_line (Call_NewPcapWriter a b c' d)" "\<not> is_error_line Call_NewStdoutPcapWriter"
  by (simp_all add: is_error_line_def)

lemma says_Marshal [simp]: "says m (Println (Marshal e)) = (Message e = m)"
  by (simp add: says_def Marshal_def)

lemma says_call [simp]:
  "\<not> says m (Call_NewTcpdump c)" "\<not> says m (Call_NewPcap c)"
  "\<not> says m (Call_NewPcapWriter a b c' d)" "\<not> says m Call_NewStdoutPcapWriter"
  by (simp_all add: says_def)

lemma error_messages_append:
  "error_messages (xs @ ys) = error_messages xs @ error_messages ys"
  by (induction xs) simp_all

lemma jfield_message_Marshal: "jfield ''message'' (Marshal e) = Some (JString (Message e))"
  by (simp add: Marshal_def)

lemma error_messages_line:
  "error_messages [Println (Marshal e)] = (if Severity e = ERROR then [Message e] else [])"
  by (simp add: jfield_message_Marshal)

lemma error_messages_jlog [simp]:
  "error_messages (xs @ [Println (Marshal (jlog_entry sev j m g))]) =
     error_messages xs @ (if sev = ERROR then [m] else [])"
  by (simp add: error_messages_append jfield_message_Marshal)

lemma error_messages_snoc_call [simp]:
  "error_messages (xs @ [Call_NewTcpdump c]) = error_messages xs"
  "error_messages (xs @ [Call_NewPcap c]) = error_messages xs"
  "error_messages (xs @ [Call_NewPcapWriter a b c' d]) = error_messages xs"
  "error_messages (xs @ [Call_NewStdoutPcapWriter]) = error_messages xs"
  by (simp_all add: error_messages_append)



lemma Extension_newPcapConfig [simp]:
  "Extension (newPcapConfig iface format output ext flt snap intv) = ext"
  by (simp add: newPcapConfig_def)








subsection \<open>The names the device selector takes\<close>

lemma plain_not_special: "plain c \<Longrightarrow> c \<noteq> CHR ''.'' \<and> c \<noteq> CHR ''|''"
  by (auto simp: plain_def meta_def)

lemma split_bars_plain: "list_all plain pat \<Longrightarrow> split_bars pat = [pat]"
  by (induction pat) (auto simp: plain_not_special)

lemma pattern_items_plain:
  "list_all plain pat \<Longrightarrow> pattern_items pat = Some (map (\<lambda>c. One (Lit c)) pat)"
  by (induction pat) (auto simp: plain_not_special)

lemma ifaceRegexp_plain:
  "list_all plain pat \<Longrightarrow>
   ifaceRegexp pat =
     Some (Regexp (OptLit ''ipvlan-'' # map (\<lambda>c. One (Lit c)) pat @ [Plus Digit, Star AnyChar])
             [])"
  by (simp add: ifaceRegexp_def split_bars_plain pattern_items_plain)

lemma prefix_match_literal:
  "prefix_match (map (\<lambda>c. One (Lit c)) pat @ r) s =
     (take (length pat) s = pat \<and> prefix_match r (drop (length pat) s))"
proof (induction pat arbitrary: s)
  case Nil
  show ?case by simp
next
  case (Cons c pat)
  show ?case by (cases s) (auto simp: Cons.IH)
qed

lemma prefix_match_any_rest [simp]: "prefix_match [Star AnyChar] s = True"
  by (cases s) simp_all

lemma prefix_match_digits:
  "prefix_match [Plus Digit, Star AnyChar] s =
     (case s of [] \<Rightarrow> False | d # rest \<Rightarrow> is_digit d)"
  by (cases s) simp_all

lemma MatchString_literal_form:
  "MatchString
     (Regexp (OptLit ''ipvlan-'' # map (\<lambda>c. One (Lit c)) pat @ [Plus Digit, Star AnyChar]) []) s
     = literal_form pat s"
proof -
  have r: "\<And>s. prefix_match (map (\<lambda>c. One (Lit c)) pat @ [Plus Digit, Star AnyChar]) s =
             has_form pat s"
    by (simp add: prefix_match_literal prefix_match_digits has_form_def)
  have n: "length ''ipvlan-'' = 7"
    by simp
  have "prefix_match
          (OptLit ''ipvlan-'' # map (\<lambda>c. One (Lit c)) pat @ [Plus Digit, Star AnyChar]) s =
        literal_form pat s"
    unfolding literal_form_def prefix_match.simps r n by blast
  then show ?thesis
    by (simp add: MatchString_def)
qed

text \<open>
  Claim C7, as amended. For every pattern of ASCII characters none of which is a
  regular-expression metacharacter, the device selector returns exactly the host's
  interfaces whose name is an optional \<^verbatim>\<open>ipvlan-\<close>, then the pattern, then a digit,
  then anything.
\<close>

theorem selector_literal_form:
  "list_all plain pat \<longrightarrow>
     DeviceSelector pat h = Some (filter (\<lambda>d. literal_form pat (fst d)) h)"
  by (simp add: DeviceSelector_def ifaceRegexp_plain FindDevicesByRegex_def
        MatchString_literal_form)

text \<open>
  The pattern \<^verbatim>\<open>eth\<close> on the host \<^verbatim>\<open>eth0\<close>, \<^verbatim>\<open>lo\<close>, \<^verbatim>\<open>ipvlan-eth1\<close>: the first and
  the third are taken.
\<close>

theorem selector_literal_form_witness:
  "list_all plain ''eth'' \<and>
   DeviceSelector ''eth'' sample_host =
     Some [(''eth0'', ok_probe 2 ''eth0''), (''ipvlan-eth1'', ok_probe 3 ''ipvlan-eth1'')] \<and>
   literal_form ''eth'' ''eth0'' \<and> literal_form ''eth'' ''ipvlan-eth1'' \<and>
   \<not> literal_form ''eth'' ''lo'' \<and> \<not> literal_form ''eth'' ''ethernet''"
proof -
  have p: "list_all plain ''eth''"
    by (simp add: plain_def meta_def)
  have l: "literal_form ''eth'' ''eth0''" "literal_form ''eth'' ''ipvlan-eth1''"
    "\<not> literal_form ''eth'' ''lo''" "\<not> literal_form ''eth'' ''ethernet''"
    by (simp_all add: literal_form_def has_form_def is_digit_def)
  from p selector_literal_form [of "''eth''" sample_host]
  have "DeviceSelector ''eth'' sample_host =
          Some (filter (\<lambda>d. literal_form ''eth'' (fst d)) sample_host)"
    by blast
  then have "DeviceSelector ''eth'' sample_host =
     Some [(''eth0'', ok_probe 2 ''eth0''), (''ipvlan-eth1'', ok_probe 3 ''ipvlan-eth1'')]"
    by (simp add: sample_host_def l)
  with p l show ?thesis by simp
qed

text \<open>
  Claim C7 as stated, for every pattern, fails. With \<^verbatim>\<open>PCAP_IFACE=lo|eth\<close> line 190
  compiles \<^verbatim>\<open>^(?:ipvlan-)?lo|eth\d+.*\<close>: two branches, and the digits belong to the
  second one only. On the host \<^verbatim>\<open>eth0\<close>, \<^verbatim>\<open>lo\<close>, \<^verbatim>\<open>ipvlan-eth1\<close> every interface is
  selected, \<^verbatim>\<open>lo\<close> among them, a name with no digit in it.
\<close>

theorem selector_alternation_counterexample:
  "map_option (map fst) (DeviceSelector ''lo|eth'' sample_host) =
     Some [''eth0'', ''lo'', ''ipvlan-eth1''] \<and>
   \<not> list_ex is_digit ''lo'' \<and>
   \<not> literal_form ''lo|eth'' ''lo''"
  by (simp add: DeviceSelector_def ifaceRegexp_def plain_def meta_def FindDevicesByRegex_def
        MatchString_def is_digit_def literal_form_def has_form_def sample_host_def)

subsection \<open>How main ends\<close>

lemma start_events_no_cancel [simp]: "ScopeCancelled \<notin> set (start_events hs)"
  by (induction hs rule: start_events.induct) simp_all

lemma main_oneshot_outcome:
  "snd (main_oneshot t ts hs g) =
     (if (0 < t \<and> t \<le> elapsed (start_events hs)) \<and>
         list_all (\<lambda>i. EngineReturns i \<in> set (start_events hs)) [0..<length ts]
      then Exit 0
      else case first_signal hs of Some s \<Rightarrow> Killed | None \<Rightarrow> Blocked)"
  by (simp add: main_oneshot_def Let_def start_result)

lemma jlog_fields [simp]:
  "fl (jlog s j m g) = fl g" "jobs (jlog s j m g) = jobs g" "jid (jlog s j m g) = jid g"
  "xid (jlog s j m g) = xid g"
  by (simp_all add: jlog_def)

lemma call_fields [simp]:
  "fl (call a g) = fl g" "jobs (call a g) = jobs g" "jid (call a g) = jid g"
  "xid (call a g) = xid g"
  by (simp_all add: call_def)

lemma main_timezone_location: "snd (main_timezone x g) = location_of x (fl g)"
  by (simp add: main_timezone_def location_of_def Let_def split: sum.split)

lemma main_timezone_crontab:
  "crontab_of x (fl g) =
     ''TZ='' @ timezone (fl (fst (main_timezone x g))) @ '' '' @
     cron_exp (fl (fst (main_timezone x g)))"
  by (simp add: main_timezone_def crontab_of_def Let_def split: sum.split)

lemma main_cron_outcome:
  "snd (main_cron x t ts hs g) =
     (case NewScheduler x (location_of x (fl g)) of
        Some e \<Rightarrow> Exit 2
      | None \<Rightarrow>
          (case NewJob x (crontab_of x (fl g)) of
             Inl e \<Rightarrow> Exit 3
           | Inr j \<Rightarrow> (case first_signal hs of None \<Rightarrow> Blocked | Some s \<Rightarrow> Exit 0)))"
  by (simp add: main_cron_def Let_def main_timezone_location main_timezone_crontab
        split: sum.split option.split)

lemma main_Some:
  assumes "createTasks (main_start g0) h = Some (g3, ts)"
  shows "main h x hs g0 =
     (if ts = [] then (jlog ERROR emptyTcpdumpJob ''no PCAP tasks available'' g3, Exit 1)
      else if \<not> use_cron (fl g3)
      then main_oneshot (timeout_of (fl g3)) ts hs
             (jlog INFO emptyTcpdumpJob
                (''parsed timeout: '' @ show_Duration x (timeout_of (fl g3))) g3)
      else main_cron x (timeout_of (fl g3)) ts hs
             (jlog INFO emptyTcpdumpJob
                (''parsed timeout: '' @ show_Duration x (timeout_of (fl g3))) g3))"
  using assms
  by (simp add: main_def main_start_def Let_def timeout_of_def jlog_frame)

lemma createTasks_fl:
  assumes "createTasks g h = Some (g3, ts)"
  shows "fl g3 = fl g"
  using assms by (auto elim!: createTasks_Some)

lemma main_start_fl [simp]: "fl (main_start g0) = fl g0"
  by (simp add: main_start_def)

lemma main_outcome:
  assumes "createTasks (main_start g0) h = Some (g3, ts)"
  shows "snd (main h x hs g0) =
     (if ts = [] then Exit 1
      else if \<not> use_cron (fl g0)
      then (if (0 < timeout_of (fl g0) \<and> timeout_of (fl g0) \<le> elapsed (start_events hs)) \<and>
               list_all (\<lambda>i. EngineReturns i \<in> set (start_events hs)) [0..<length ts]
            then Exit 0
            else case first_signal hs of Some s \<Rightarrow> Killed | None \<Rightarrow> Blocked)
      else (case NewScheduler x (location_of x (fl g0)) of
              Some e \<Rightarrow> Exit 2
            | None \<Rightarrow>
                (case NewJob x (crontab_of x (fl g0)) of
                   Inl e \<Rightarrow> Exit 3
                 | Inr j \<Rightarrow> (case first_signal hs of None \<Rightarrow> Blocked | Some s \<Rightarrow> Exit 0))))"
proof -
  have f: "fl g3 = fl g0"
    using createTasks_fl [OF assms] by simp
  show ?thesis
    by (simp add: main_Some [OF assms] main_oneshot_outcome main_cron_outcome f
          split: option.split sum.split)
qed


lemma json_pass_never_says:
  "filter (says ''no PCAP tasks available'') (json_pass_out f w i oput c g) = []"
  by (simp add: json_pass_out_def createTasks_json_def Let_def jlog_frame call_def
        split: option.split)

lemma pass_never_says:
  "filter (says ''no PCAP tasks available'') (pass_out f d g) = []"
  by (simp add: pass_out_def createTasks_iface_def Let_def json_shift jlog_frame call_def
        json_pass_never_says split: option.split sum.split)

lemma loop_never_says:
  "filter (says ''no PCAP tasks available'') (concat (map (\<lambda>d. pass_out f d g) ds)) = []"
  by (induction ds) (simp_all add: pass_never_says)

lemma main_start_out:
  "out (main_start g0) =
     out g0 @ [Println (Marshal (jlog_entry INFO emptyTcpdumpJob (args_message (fl g0))
                 (g0\<lparr>jid := uuid_Nil, xid := uuid_Nil\<rparr>)))]"
  by (simp add: main_start_def jlog_frame)

lemma args_message_not_no_tasks: "args_message f \<noteq> ''no PCAP tasks available''"
  by (simp add: args_message_def)

lemma no_tasks_line_once:
  assumes "createTasks (main_start g0) h = Some (g3, ts)"
  shows "filter (says ''no PCAP tasks available'')
           (drop (length (out g0))
              (out (jlog ERROR emptyTcpdumpJob ''no PCAP tasks available'' g3))) =
         [Println (Marshal (jlog_entry ERROR emptyTcpdumpJob ''no PCAP tasks available'' g3))]"
proof -
  from assms obtain ds where
    "(g3, ts) = ((main_start g0)\<lparr>out := out (main_start g0) @
                    concat (map (\<lambda>d. pass_out (fl (main_start g0)) d (main_start g0)) ds)\<rparr>,
                 concat (map (pass_tasks (fl (main_start g0))) ds))"
    by (rule createTasks_Some)
  then have "out g3 = out g0 @
       Println (Marshal (jlog_entry INFO emptyTcpdumpJob (args_message (fl g0))
                 (g0\<lparr>jid := uuid_Nil, xid := uuid_Nil\<rparr>))) #
       concat (map (\<lambda>d. pass_out (fl (main_start g0)) d (main_start g0)) ds)"
    by (simp add: main_start_out)
  then show ?thesis
    by (simp add: jlog_frame loop_never_says args_message_not_no_tasks)
qed

text \<open>
  Claim C5. Let \<^verbatim>\<open>createTasks\<close> return the tasks \<open>ts\<close>. The process exits with code 1
  exactly when there is no task; it has then printed, as its last line and only once,
  the ERROR line "no PCAP tasks available". It exits with code 2 exactly when there are
  tasks, scheduling is on and the scheduler cannot be created, and with code 3 exactly
  when the scheduler is created and the job is not. It exits with code 0 exactly on
  the two ways \<^verbatim>\<open>main\<close> returns: with scheduling on, after a termination signal; with
  scheduling off, after \<^verbatim>\<open>start\<close> has returned. No other exit code occurs.
\<close>

theorem exit_codes:
  "createTasks (main_start g0) h = Some (g3, ts) \<longrightarrow>
     (snd (main h x hs g0) = Exit 1) = (ts = []) \<and>
     (ts = [] \<longrightarrow>
        fst (main h x hs g0) = jlog ERROR emptyTcpdumpJob ''no PCAP tasks available'' g3 \<and>
        filter (says ''no PCAP tasks available'')
          (drop (length (out g0)) (out (fst (main h x hs g0)))) =
          [Println (Marshal (jlog_entry ERROR emptyTcpdumpJob ''no PCAP tasks available'' g3))]) \<and>
     (snd (main h x hs g0) = Exit 2) =
       (ts \<noteq> [] \<and> use_cron (fl g0) \<and> NewScheduler x (location_of x (fl g0)) \<noteq> None) \<and>
     (snd (main h x hs g0) = Exit 3) =
       (ts \<noteq> [] \<and> use_cron (fl g0) \<and> NewScheduler x (location_of x (fl g0)) = None \<and>
        isl (NewJob x (crontab_of x (fl g0)))) \<and>
     (snd (main h x hs g0) = Exit 0) =
       (ts \<noteq> [] \<and>
        (if use_cron (fl g0)
         then NewScheduler x (location_of x (fl g0)) = None \<and>
              \<not> isl (NewJob x (crontab_of x (fl g0))) \<and> first_signal hs \<noteq> None
         else (0 < timeout_of (fl g0) \<and> timeout_of (fl g0) \<le> elapsed (start_events hs)) \<and>
              list_all (\<lambda>i. EngineReturns i \<in> set (start_events hs)) [0..<length ts])) \<and>
     snd (main h x hs g0) \<in> {Exit 0, Exit 1, Exit 2, Exit 3, Blocked, Killed}"
proof
  assume a: "createTasks (main_start g0) h = Some (g3, ts)"
  note o = main_outcome [OF a, of x hs]
  have 1: "(snd (main h x hs g0) = Exit 1) = (ts = [])"
    unfolding o by (simp split: option.split sum.split)
  have 2: "ts = [] \<longrightarrow>
        fst (main h x hs g0) = jlog ERROR emptyTcpdumpJob ''no PCAP tasks available'' g3 \<and>
        filter (says ''no PCAP tasks available'')
          (drop (length (out g0)) (out (fst (main h x hs g0)))) =
          [Println (Marshal (jlog_entry ERROR emptyTcpdumpJob ''no PCAP tasks available'' g3))]"
    by (simp add: main_Some [OF a] no_tasks_line_once [OF a])
  have 3: "(snd (main h x hs g0) = Exit 2) =
       (ts \<noteq> [] \<and> use_cron (fl g0) \<and> NewScheduler x (location_of x (fl g0)) \<noteq> None)"
    unfolding o by (simp split: option.split sum.split)
  have 4: "(snd (main h x hs g0) = Exit 3) =
       (ts \<noteq> [] \<and> use_cron (fl g0) \<and> NewScheduler x (location_of x (fl g0)) = None \<and>
        isl (NewJob x (crontab_of x (fl g0))))"
    unfolding o by (simp split: option.split sum.split)
  have 5: "(snd (main h x hs g0) = Exit 0) =
       (ts \<noteq> [] \<and>
        (if use_cron (fl g0)
         then NewScheduler x (location_of x (fl g0)) = None \<and>
              \<not> isl (NewJob x (crontab_of x (fl g0))) \<and> first_signal hs \<noteq> None
         else (0 < timeout_of (fl g0) \<and> timeout_of (fl g0) \<le> elapsed (start_events hs)) \<and>
              list_all (\<lambda>i. EngineReturns i \<in> set (start_events hs)) [0..<length ts]))"
    unfolding o by (auto split: option.split sum.split)
  have 6: "snd (main h x hs g0) \<in> {Exit 0, Exit 1, Exit 2, Exit 3, Blocked, Killed}"
    unfolding o by (simp split: option.split sum.split)
  from 1 2 3 4 5 6 show
    "(snd (main h x hs g0) = Exit 1) = (ts = []) \<and>
     (ts = [] \<longrightarrow>
        fst (main h x hs g0) = jlog ERROR emptyTcpdumpJob ''no PCAP tasks available'' g3 \<and>
        filter (says ''no PCAP tasks available'')
          (drop (length (out g0)) (out (fst (main h x hs g0)))) =
          [Println (Marshal (jlog_entry ERROR emptyTcpdumpJob ''no PCAP tasks available'' g3))]) \<and>
     (snd (main h x hs g0) = Exit 2) =
       (ts \<noteq> [] \<and> use_cron (fl g0) \<and> NewScheduler x (location_of x (fl g0)) \<noteq> None) \<and>
     (snd (main h x hs g0) = Exit 3) =
       (ts \<noteq> [] \<and> use_cron (fl g0) \<and> NewScheduler x (location_of x (fl g0)) = None \<and>
        isl (NewJob x (crontab_of x (fl g0)))) \<and>
     (snd (main h x hs g0) = Exit 0) =
       (ts \<noteq> [] \<and>
        (if use_cron (fl g0)
         then NewScheduler x (location_of x (fl g0)) = None \<and>
              \<not> isl (NewJob x (crontab_of x (fl g0))) \<and> first_signal hs \<noteq> None
         else (0 < timeout_of (fl g0) \<and> timeout_of (fl g0) \<le> elapsed (start_events hs)) \<and>
              list_all (\<lambda>i. EngineReturns i \<in> set (start_events hs)) [0..<length ts])) \<and>
     snd (main h x hs g0) \<in> {Exit 0, Exit 1, Exit 2, Exit 3, Blocked, Killed}"
    by (intro conjI)
qed


text \<open>The equations that evaluate \<^verbatim>\<open>main\<close> on the sample inputs.\<close>

lemmas main_eval =
  main_start_def args_message_def show_bool_def eth0_host_def eth0_task_def sample_cron_def
  sample_timed_def no_scheduler_def no_job_def sample_extern_def location_of_def
  crontab_of_def timeout_of_def

lemma createTasks_obtain:
  assumes "map_option snd (createTasks g h) = Some ts"
  obtains g3 where "createTasks g h = Some (g3, ts)"
  using assms by (cases "createTasks g h") auto

text \<open>
  Five runs: a host with no matching interface; a refused scheduler; a refused job; a
  scheduled run ended by a signal; a one-shot run of one second whose engine returns.
\<close>

theorem exit_codes_witness:
  "snd (main [(''lo'', ok_probe 1 ''lo'')] sample_extern [] sample_globals) = Exit 1 \<and>
   snd (main eth0_host no_scheduler [] sample_cron) = Exit 2 \<and>
   snd (main eth0_host no_job [] sample_cron) = Exit 3 \<and>
   snd (main eth0_host sample_extern [Signal ''terminated''] sample_cron) = Exit 0 \<and>
   snd (main eth0_host sample_extern [EngineDone 0, Elapsed 1000000000] sample_timed) = Exit 0"
proof -
  have "map_option snd (createTasks (main_start sample_globals) [(''lo'', ok_probe 1 ''lo'')])
          = Some []"
    by (simp add: eval_defs main_eval)
  then obtain g1 where
    t1: "createTasks (main_start sample_globals) [(''lo'', ok_probe 1 ''lo'')] = Some (g1, [])"
    by (rule createTasks_obtain)
  note e1 = exit_codes [of sample_globals "[(''lo'', ok_probe 1 ''lo'')]" g1 "[]" sample_extern
      "[]", THEN mp, OF t1]
  from e1 [THEN conjunct1]
  have c1: "snd (main [(''lo'', ok_probe 1 ''lo'')] sample_extern [] sample_globals) = Exit 1"
    by simp
  have "map_option snd (createTasks (main_start sample_cron) eth0_host) = Some [eth0_task]"
    by (simp add: eval_defs main_eval)
  then obtain g2 where
    t2: "createTasks (main_start sample_cron) eth0_host = Some (g2, [eth0_task])"
    by (rule createTasks_obtain)
  have u: "use_cron (fl sample_cron)" "timezone (fl sample_cron) = ''UTC''"
    by (simp_all add: sample_cron_def sample_globals_def sample_flags_def)
  note e2 = exit_codes [of sample_cron eth0_host g2 "[eth0_task]" no_scheduler "[]",
      THEN mp, OF t2]
  from e2 [THEN conjunct2, THEN conjunct2, THEN conjunct1]
  have c2: "snd (main eth0_host no_scheduler [] sample_cron) = Exit 2"
    by (simp add: u no_scheduler_def)
  note e3 = exit_codes [of sample_cron eth0_host g2 "[eth0_task]" no_job "[]",
      THEN mp, OF t2]
  from e3 [THEN conjunct2, THEN conjunct2, THEN conjunct2, THEN conjunct1]
  have c3: "snd (main eth0_host no_job [] sample_cron) = Exit 3"
    by (simp add: u no_job_def sample_extern_def)
  note e4 = exit_codes [of sample_cron eth0_host g2 "[eth0_task]" sample_extern
      "[Signal ''terminated'']", THEN mp, OF t2]
  from e4 [THEN conjunct2, THEN conjunct2, THEN conjunct2, THEN conjunct2, THEN conjunct1]
  have c4: "snd (main eth0_host sample_extern [Signal ''terminated''] sample_cron) = Exit 0"
    by (simp add: u sample_extern_def)
  have "map_option snd (createTasks (main_start sample_timed) eth0_host) = Some [eth0_task]"
    by (simp add: eval_defs main_eval)
  then obtain g3 where
    t3: "createTasks (main_start sample_timed) eth0_host = Some (g3, [eth0_task])"
    by (rule createTasks_obtain)
  have v: "\<not> use_cron (fl sample_timed)" "timeout_of (fl sample_timed) = 1000000000"
    by (simp_all add: sample_timed_def sample_globals_def sample_flags_def timeout_of_def)
  note e5 = exit_codes [of sample_timed eth0_host g3 "[eth0_task]" sample_extern
      "[EngineDone 0, Elapsed 1000000000]", THEN mp, OF t3]
  from e5 [THEN conjunct2, THEN conjunct2, THEN conjunct2, THEN conjunct2, THEN conjunct1]
  have c5: "snd (main eth0_host sample_extern [EngineDone 0, Elapsed 1000000000] sample_timed)
              = Exit 0"
    by (simp add: v)
  from c1 c2 c3 c4 c5 show ?thesis
    by (intro conjI)
qed

subsection \<open>The time-zone fallback\<close>

text \<open>
  Claim C4 asks for the ERROR line before the substitution of UTC. When the configured
  zone does not load, lines 311-313 first store UTC into the flag and take the UTC
  location, and only then print the ERROR line, whose text is built from the flag as
  it is by then: it names UTC, not the zone that failed. The scheduler then gets the
  UTC location and a crontab in UTC.
\<close>

theorem timezone_fallback_order:
  "LoadLocation x (timezone (fl g)) = Inl err \<longrightarrow>
     main_timezone x g =
       (g\<lparr>fl := (fl g)\<lparr>timezone := ''UTC''\<rparr>,
          out := out g @
            [StoreTimezone ''UTC'',
             Println (Marshal (jlog_entry ERROR emptyTcpdumpJob
               (''could not load timezone '' @ [CHR 0x27] @ ''UTC'' @ [CHR 0x27] @ '': '' @ err)
               g))]\<rparr>,
        ''UTC'') \<and>
     location_of x (fl g) = ''UTC'' \<and>
     crontab_of x (fl g) = ''TZ=UTC '' @ cron_exp (fl g)"
  by (simp add: main_timezone_def Let_def location_of_def crontab_of_def jlog_frame call_def
        jlog_entry_def)

text \<open>
  \<^verbatim>\<open>-use_cron -timezone=Mars/Phobos\<close> on the host with \<^verbatim>\<open>eth0\<close>: the sixth action of
  the process is the store of UTC, the seventh is the ERROR line, which reads
  "could not load timezone 'UTC': unknown time zone Mars/Phobos".
\<close>

theorem timezone_fallback_order_witness:
  "LoadLocation sample_extern (timezone (fl sample_mars)) =
     Inl ''unknown time zone Mars/Phobos'' \<and>
   out (fst (main_timezone sample_extern sample_mars)) =
     [StoreTimezone ''UTC'',
      Println (Marshal (jlog_entry ERROR emptyTcpdumpJob
        (''could not load timezone '' @ [CHR 0x27] @ ''UTC'' @ [CHR 0x27] @
         '': unknown time zone Mars/Phobos'') sample_mars))] \<and>
   out (fst (main eth0_host sample_extern [] sample_mars)) ! 5 = StoreTimezone ''UTC'' \<and>
   is_error_line (out (fst (main eth0_host sample_extern [] sample_mars)) ! 6) \<and>
   says (''could not load timezone '' @ [CHR 0x27] @ ''UTC'' @ [CHR 0x27] @
         '': unknown time zone Mars/Phobos'')
     (out (fst (main eth0_host sample_extern [] sample_mars)) ! 6)"
proof -
  have a: "LoadLocation sample_extern (timezone (fl sample_mars)) =
             Inl ''unknown time zone Mars/Phobos''"
    by (simp add: sample_extern_def sample_mars_def)
  have o: "out sample_mars = []"
    by (simp add: sample_mars_def sample_globals_def)
  from timezone_fallback_order [of sample_extern sample_mars "''unknown time zone Mars/Phobos''"]
    a
  have "main_timezone sample_extern sample_mars =
       (sample_mars\<lparr>fl := (fl sample_mars)\<lparr>timezone := ''UTC''\<rparr>,
          out := out sample_mars @
            [StoreTimezone ''UTC'',
             Println (Marshal (jlog_entry ERROR emptyTcpdumpJob
               (''could not load timezone '' @ [CHR 0x27] @ ''UTC'' @ [CHR 0x27] @ '': '' @
                ''unknown time zone Mars/Phobos'') sample_mars))]\<rparr>,
        ''UTC'')"
    by blast
  then have b: "out (fst (main_timezone sample_extern sample_mars)) =
     [StoreTimezone ''UTC'',
      Println (Marshal (jlog_entry ERROR emptyTcpdumpJob
        (''could not load timezone '' @ [CHR 0x27] @ ''UTC'' @ [CHR 0x27] @
         '': unknown time zone Mars/Phobos'') sample_mars))]"
    by (simp add: o)
  have c: "out (fst (main eth0_host sample_extern [] sample_mars)) ! 5 = StoreTimezone ''UTC'' \<and>
   is_error_line (out (fst (main eth0_host sample_extern [] sample_mars)) ! 6) \<and>
   says (''could not load timezone '' @ [CHR 0x27] @ ''UTC'' @ [CHR 0x27] @
         '': unknown time zone Mars/Phobos'')
     (out (fst (main eth0_host sample_extern [] sample_mars)) ! 6)"
    by (simp add: main_def main_cron_def main_timezone_def eval_defs main_eval sample_mars_def)
  from a b c show ?thesis
    by (intro conjI) simp_all
qed


subsection \<open>Every printed line carries the identities\<close>

lemma carries_ids_Marshal:
  "carries_ids (Println (Marshal e)) = (Xid (Job e) \<noteq> [] \<and> Jid (Job e) \<noteq> [])"
  by (simp add: Marshal_def Marshal_job_def omitempty_def)

lemma carries_ids_jlog [simp]:
  "list_all carries_ids (out (jlog sev j m g)) = (list_all carries_ids (out g) \<and> Jid j \<noteq> [])"
  by (simp add: jlog_def carries_ids_Marshal jlog_entry_def del: carries_ids.simps)

lemma carries_ids_call [simp]:
  "list_all carries_ids (out (call a g)) = (list_all carries_ids (out g) \<and> carries_ids a)"
  by (simp add: call_def)

lemma Jid_empty [simp]: "Jid emptyTcpdumpJob \<noteq> []"
  by (simp add: emptyTcpdumpJob_def)















end
